theory Spec2Isabelle
  imports Complex_Main
begin

section \<open>JavaScript numbers\<close>

text \<open>
  The scrollbar computes with JavaScript numbers. The model keeps the three special
  values of IEEE 754 that the program can produce by dividing (\<open>NaN\<close> and the two
  infinities) and follows the IEEE rules for them; a finite value is a real number and
  finite arithmetic is exact (rounding to 53 bits and overflow of finite operands are
  not modelled). There is one zero: every divisor of the program is a DOM size, a
  difference of two DOM sizes or the configured step count, so a zero divisor is the
  positive zero, and \<open>x / 0\<close> has the sign of \<open>x\<close>.
\<close>

datatype number = NaN | NegInfinity | PosInfinity | Fin real

instantiation number :: "{plus, uminus, minus, times, inverse, ord}"
begin

fun plus_number :: "number \<Rightarrow> number \<Rightarrow> number" where
  "plus_number NaN y = NaN"
| "plus_number x NaN = NaN"
| "plus_number PosInfinity NegInfinity = NaN"
| "plus_number NegInfinity PosInfinity = NaN"
| "plus_number PosInfinity y = PosInfinity"
| "plus_number x PosInfinity = PosInfinity"
| "plus_number NegInfinity y = NegInfinity"
| "plus_number x NegInfinity = NegInfinity"
| "plus_number (Fin a) (Fin b) = Fin (a + b)"

fun uminus_number :: "number \<Rightarrow> number" where
  "uminus_number NaN = NaN"
| "uminus_number NegInfinity = PosInfinity"
| "uminus_number PosInfinity = NegInfinity"
| "uminus_number (Fin a) = Fin (- a)"

definition minus_number :: "number \<Rightarrow> number \<Rightarrow> number" where
  "minus_number x y = x + (- y)"

fun times_number :: "number \<Rightarrow> number \<Rightarrow> number" where
  "times_number NaN y = NaN"
| "times_number x NaN = NaN"
| "times_number (Fin a) (Fin b) = Fin (a * b)"
| "times_number (Fin a) PosInfinity =
     (if 0 < a then PosInfinity else if a < 0 then NegInfinity else NaN)"
| "times_number (Fin a) NegInfinity =
     (if 0 < a then NegInfinity else if a < 0 then PosInfinity else NaN)"
| "times_number PosInfinity (Fin b) =
     (if 0 < b then PosInfinity else if b < 0 then NegInfinity else NaN)"
| "times_number NegInfinity (Fin b) =
     (if 0 < b then NegInfinity else if b < 0 then PosInfinity else NaN)"
| "times_number PosInfinity PosInfinity = PosInfinity"
| "times_number PosInfinity NegInfinity = NegInfinity"
| "times_number NegInfinity PosInfinity = NegInfinity"
| "times_number NegInfinity NegInfinity = PosInfinity"

fun divide_number :: "number \<Rightarrow> number \<Rightarrow> number" where
  "divide_number NaN y = NaN"
| "divide_number x NaN = NaN"
| "divide_number (Fin a) (Fin b) =
     (if b = 0 then (if 0 < a then PosInfinity else if a < 0 then NegInfinity else NaN)
      else Fin (a / b))"
| "divide_number (Fin a) y = Fin 0"
| "divide_number PosInfinity (Fin b) = (if 0 \<le> b then PosInfinity else NegInfinity)"
| "divide_number NegInfinity (Fin b) = (if 0 \<le> b then NegInfinity else PosInfinity)"
| "divide_number x y = NaN"

definition inverse_number :: "number \<Rightarrow> number" where
  "inverse_number x = divide (Fin 1) x"

fun less_number :: "number \<Rightarrow> number \<Rightarrow> bool" where
  "less_number NaN y = False"
| "less_number x NaN = False"
| "less_number x NegInfinity = False"
| "less_number NegInfinity y = True"
| "less_number PosInfinity y = False"
| "less_number (Fin a) PosInfinity = True"
| "less_number (Fin a) (Fin b) = (a < b)"

definition less_eq_number :: "number \<Rightarrow> number \<Rightarrow> bool" where
  "less_eq_number x y = (x < y \<or> (x = y \<and> x \<noteq> NaN))"

instance ..

end

text \<open>\<^verbatim>\<open>Math.min\<close>, \<^verbatim>\<open>Math.max\<close> (NaN if an argument is NaN) and \<^verbatim>\<open>Math.round\<close> (to the
  nearest integer, a tie towards \<open>+\<infinity>\<close>).\<close>

definition Math_min :: "number \<Rightarrow> number \<Rightarrow> number" where
  "Math_min x y = (if x = NaN \<or> y = NaN then NaN else if y < x then y else x)"

definition Math_max :: "number \<Rightarrow> number \<Rightarrow> number" where
  "Math_max x y = (if x = NaN \<or> y = NaN then NaN else if x < y then y else x)"

fun Math_round :: "number \<Rightarrow> number" where
  "Math_round (Fin a) = Fin (of_int \<lfloor>a + 1 / 2\<rfloor>)"
| "Math_round x = x"

section \<open>The host page\<close>

text \<open>
  The scrollbar reads sizes and offsets that the browser's layout engine has computed and
  writes styles and attributes back. An element is a node identifier (two options that
  name the same element carry the same identifier). Everything the instance does to the
  page is appended to a trace of effects, in program order. What the page reports when
  it is measured is the host's business: \<open>layout\<close> gives the box of a node as a
  function of the effects made so far, so a style written earlier in an operation may
  change a size read later in it. The statements below hold for every host.
\<close>

type_synonym node = nat

record box =
  offsetWidth :: number
  offsetHeight :: number
  scrollWidth :: number
  scrollHeight :: number
  offsetLeft :: number
  offsetTop :: number
  rectLeft :: number
  rectTop :: number

datatype css_property = CssLeft | CssTop | CssWidth | CssHeight

text \<open>\<open>Px n\<close> is the string \<^verbatim>\<open>n + 'px'\<close>; \<open>NumStr n\<close> is \<^verbatim>\<open>String(n)\<close>.\<close>

datatype css_value = Px number

datatype attr_value = Str string | NumStr number

datatype event_target = Element node | Document | Window

datatype handler = OnDown | OnMove | OnUp | OnKey | OnTrackClick | OnResize

datatype effect =
    SetStyle node css_property css_value
  | SetAttribute node string attr_value
  | FocusElement node
  | PreventDefault
  | AddEventListener event_target string handler
  | RemoveEventListener event_target string handler
  | SetTimeout nat number
  | ClearTimeout nat
  | OnScroll number
  | OnDragStart
  | OnDragEnd

record host =
  layout :: "effect list \<Rightarrow> node \<Rightarrow> box"
  contains :: "node \<Rightarrow> node \<Rightarrow> bool"
  querySelector :: "string \<Rightarrow> node option"

datatype direction = Horizontal | Vertical

text \<open>
  The fields of the class, followed by the part of the page that the instance changes:
  the attributes present on its elements, the listeners it has registered, its pending
  timers and the trace of its effects. A callback option is modelled by whether it was
  supplied; calling it is an effect.
\<close>

record scrollbar =
  track :: node
  thumb :: node
  contentEls :: "node list"
  viewport :: node
  direction :: direction
  keyboardSteps :: number
  trackClick :: bool
  autoResize :: bool
  resizeDebounce :: number
  onScrollCb :: bool
  onDragStartCb :: bool
  onDragEndCb :: bool
  ratio :: number
  dragStep :: number
  lastPointer :: number
  isDragging :: bool
  resizeTimer :: "nat option"
  destroyed :: bool
  attributes :: "(node \<times> string) set"
  listeners :: "(event_target \<times> string \<times> handler) set"
  timers :: "nat set"
  nextTimer :: nat
  trace :: "effect list"

datatype error = TypeError | NotFound string

text \<open>An operation returns, or throws with the state it had reached.\<close>

datatype outcome = Returned scrollbar | Threw error scrollbar

definition emit :: "effect \<Rightarrow> scrollbar \<Rightarrow> scrollbar" where
  "emit e s = s\<lparr>trace := trace s @ [e]\<rparr>"

definition setAttribute :: "node \<Rightarrow> string \<Rightarrow> attr_value \<Rightarrow> scrollbar \<Rightarrow> scrollbar" where
  "setAttribute n a v s =
     emit (SetAttribute n a v) (s\<lparr>attributes := insert (n, a) (attributes s)\<rparr>)"

definition hasAttribute :: "node \<Rightarrow> string \<Rightarrow> scrollbar \<Rightarrow> bool" where
  "hasAttribute n a s = ((n, a) \<in> attributes s)"

text \<open>Adding a listener that is already registered for the same target and type adds
  nothing; each handler is bound once, so its name is its identity.\<close>

definition addEventListener :: "event_target \<Rightarrow> string \<Rightarrow> handler \<Rightarrow> scrollbar \<Rightarrow> scrollbar" where
  "addEventListener t ty f s =
     emit (AddEventListener t ty f) (s\<lparr>listeners := insert (t, ty, f) (listeners s)\<rparr>)"

definition removeEventListener :: "event_target \<Rightarrow> string \<Rightarrow> handler \<Rightarrow> scrollbar \<Rightarrow> scrollbar" where
  "removeEventListener t ty f s =
     emit (RemoveEventListener t ty f) (s\<lparr>listeners := listeners s - {(t, ty, f)}\<rparr>)"

definition setTimeout :: "number \<Rightarrow> scrollbar \<Rightarrow> nat \<times> scrollbar" where
  "setTimeout delay s =
     (nextTimer s,
      emit (SetTimeout (nextTimer s) delay)
        (s\<lparr>timers := insert (nextTimer s) (timers s), nextTimer := Suc (nextTimer s)\<rparr>))"

definition clearTimeout :: "nat \<Rightarrow> scrollbar \<Rightarrow> scrollbar" where
  "clearTimeout i s = emit (ClearTimeout i) (s\<lparr>timers := timers s - {i}\<rparr>)"

section \<open>The class DetachedScrollbar\<close>

subsection \<open>Measurement helpers\<close>

definition isHorizontal :: "scrollbar \<Rightarrow> bool" where
  "isHorizontal s = (direction s = Horizontal)"

definition trackSize :: "host \<Rightarrow> scrollbar \<Rightarrow> number" where
  "trackSize h s =
     (if isHorizontal s then offsetWidth (layout h (trace s) (track s))
      else offsetHeight (layout h (trace s) (track s)))"

definition thumbSize :: "host \<Rightarrow> scrollbar \<Rightarrow> number" where
  "thumbSize h s =
     (if isHorizontal s then offsetWidth (layout h (trace s) (thumb s))
      else offsetHeight (layout h (trace s) (thumb s)))"

definition viewportSize :: "host \<Rightarrow> scrollbar \<Rightarrow> number" where
  "viewportSize h s =
     (if isHorizontal s then offsetWidth (layout h (trace s) (viewport s))
      else offsetHeight (layout h (trace s) (viewport s)))"

text \<open>\<^verbatim>\<open>this.contentEls[0]\<close> is \<^verbatim>\<open>undefined\<close> for an empty array, and reading a property of it
  throws a TypeError: \<open>None\<close>.\<close>

definition contentSize :: "host \<Rightarrow> scrollbar \<Rightarrow> number option" where
  "contentSize h s =
     (case contentEls s of
        [] \<Rightarrow> None
      | el # _ \<Rightarrow>
          Some (if isHorizontal s then scrollWidth (layout h (trace s) el)
                else scrollHeight (layout h (trace s) el)))"

definition currentThumbPos :: "host \<Rightarrow> scrollbar \<Rightarrow> number" where
  "currentThumbPos h s =
     (if isHorizontal s then offsetLeft (layout h (trace s) (thumb s))
      else offsetTop (layout h (trace s) (thumb s)))"

subsection \<open>Thumb sizing\<close>

definition sizeThumb :: "host \<Rightarrow> scrollbar \<Rightarrow> outcome" where
  "sizeThumb h s =
     (let vSize = viewportSize h s in
      case contentSize h s of
        None \<Rightarrow> Threw TypeError s
      | Some cSize \<Rightarrow>
          let visible = vSize / cSize;
              size = trackSize h s * Math_min visible (Fin 1);
              s1 = emit (SetStyle (thumb s) (if isHorizontal s then CssWidth else CssHeight)
                           (Px size)) s
          in Returned (s1\<lparr>dragStep := trackSize h s1 / keyboardSteps s1\<rparr>))"

subsection \<open>Position application\<close>

definition applyPosition :: "host \<Rightarrow> scrollbar \<Rightarrow> outcome" where
  "applyPosition h s =
     (let thumbPos = ratio s * (trackSize h s - thumbSize h s) in
      case contentSize h s of
        None \<Rightarrow> Threw TypeError s
      | Some cSize \<Rightarrow>
          let contentPos = - ratio s * (cSize - viewportSize h s);
              prop = (if isHorizontal s then CssLeft else CssTop);
              s1 = emit (SetStyle (thumb s) prop (Px thumbPos)) s;
              s2 = foldl (\<lambda>a el. emit (SetStyle el prop (Px contentPos)) a) s1 (contentEls s);
              s3 = setAttribute (thumb s) ''aria-valuenow''
                     (NumStr (Math_round (ratio s * Fin 100))) s2
          in Returned (if onScrollCb s3 then emit (OnScroll (ratio s3)) s3 else s3))"

definition clampAndApply :: "host \<Rightarrow> scrollbar \<Rightarrow> outcome" where
  "clampAndApply h s =
     (let s1 = (if ratio s < Fin 0 then s\<lparr>ratio := Fin 0\<rparr> else s);
          s2 = (if Fin 1 < ratio s1 then s1\<lparr>ratio := Fin 1\<rparr> else s1)
      in applyPosition h s2)"

subsection \<open>Public API\<close>

definition scrollTo :: "host \<Rightarrow> number \<Rightarrow> scrollbar \<Rightarrow> outcome" where
  "scrollTo h r s = clampAndApply h (s\<lparr>ratio := r\<rparr>)"

definition scrollToOffset :: "host \<Rightarrow> number \<Rightarrow> scrollbar \<Rightarrow> outcome" where
  "scrollToOffset h offset s =
     (let vSize = viewportSize h s in
      case contentSize h s of
        None \<Rightarrow> Threw TypeError s
      | Some cSize \<Rightarrow>
          let target = offset - vSize / Fin 2
          in clampAndApply h (s\<lparr>ratio := target / (cSize - vSize)\<rparr>))"

definition update :: "host \<Rightarrow> scrollbar \<Rightarrow> outcome" where
  "update h s =
     (case sizeThumb h s of
        Threw e s1 \<Rightarrow> Threw e s1
      | Returned s1 \<Rightarrow> applyPosition h s1)"

definition focus :: "scrollbar \<Rightarrow> scrollbar" where
  "focus s = emit (FocusElement (thumb s)) s"

definition destroy :: "scrollbar \<Rightarrow> scrollbar" where
  "destroy s =
     (if destroyed s then s
      else
        let s1 = s\<lparr>destroyed := True\<rparr>;
            s2 = removeEventListener (Element (thumb s1)) ''mousedown'' OnDown s1;
            s3 = removeEventListener (Element (thumb s2)) ''touchstart'' OnDown s2;
            s4 = removeEventListener (Element (thumb s3)) ''keydown'' OnKey s3;
            s5 = removeEventListener Document ''mousemove'' OnMove s4;
            s6 = removeEventListener Document ''touchmove'' OnMove s5;
            s7 = removeEventListener Document ''mouseup'' OnUp s6;
            s8 = removeEventListener Document ''touchend'' OnUp s7;
            s9 = (if trackClick s8
                  then removeEventListener (Element (track s8)) ''click'' OnTrackClick s8
                  else s8);
            s10 = (if autoResize s9 then removeEventListener Window ''resize'' OnResize s9
                   else s9)
        in case resizeTimer s10 of
             Some i \<Rightarrow> clearTimeout i s10
           | None \<Rightarrow> s10)"

subsection \<open>Initialisation and construction\<close>

definition init :: "host \<Rightarrow> scrollbar \<Rightarrow> outcome" where
  "init h s =
     (let s1 = (if \<not> hasAttribute (thumb s) ''tabindex'' s
                then setAttribute (thumb s) ''tabindex'' (Str ''0'') s else s);
          s2 = (if \<not> hasAttribute (thumb s1) ''role'' s1
                then setAttribute (thumb s1) ''aria-valuenow'' (Str ''0'')
                       (setAttribute (thumb s1) ''aria-valuemax'' (Str ''100'')
                          (setAttribute (thumb s1) ''aria-valuemin'' (Str ''0'')
                             (setAttribute (thumb s1) ''role'' (Str ''slider'') s1)))
                else s1);
          s3 = (if \<not> hasAttribute (thumb s2) ''aria-label'' s2
                then setAttribute (thumb s2) ''aria-label'' (Str ''Scrollbar'') s2 else s2);
          s4 = addEventListener (Element (thumb s3)) ''mousedown'' OnDown s3;
          s5 = addEventListener (Element (thumb s4)) ''touchstart'' OnDown s4;
          s6 = addEventListener (Element (thumb s5)) ''keydown'' OnKey s5;
          s7 = (if trackClick s6
                then addEventListener (Element (track s6)) ''click'' OnTrackClick s6 else s6);
          s8 = (if autoResize s7 then addEventListener Window ''resize'' OnResize s7 else s7)
      in sizeThumb h s8)"

datatype element_ref = Selector string | Ref node

datatype content_option = Single element_ref | Many "element_ref list"

record options =
  opt_track :: element_ref
  opt_thumb :: element_ref
  opt_content :: content_option
  opt_viewport :: element_ref
  opt_direction :: "direction option"
  opt_keyboardSteps :: "number option"
  opt_trackClick :: "bool option"
  opt_autoResize :: "bool option"
  opt_resizeDebounce :: "number option"
  opt_onScroll :: bool
  opt_onDragStart :: bool
  opt_onDragEnd :: bool

fun resolveElement :: "host \<Rightarrow> element_ref \<Rightarrow> error + node" where
  "resolveElement h (Selector sel) =
     (case querySelector h sel of None \<Rightarrow> Inl (NotFound sel) | Some el \<Rightarrow> Inr el)"
| "resolveElement h (Ref el) = Inr el"

text \<open>\<^verbatim>\<open>items.map(resolveElement)\<close>: the first selector that matches nothing throws.\<close>

fun resolveAll :: "host \<Rightarrow> element_ref list \<Rightarrow> error + node list" where
  "resolveAll h [] = Inr []"
| "resolveAll h (x # xs) =
     (case resolveElement h x of
        Inl e \<Rightarrow> Inl e
      | Inr el \<Rightarrow> (case resolveAll h xs of Inl e \<Rightarrow> Inl e | Inr els \<Rightarrow> Inr (el # els)))"

fun resolveContentElements :: "host \<Rightarrow> content_option \<Rightarrow> error + node list" where
  "resolveContentElements h (Many items) = resolveAll h items"
| "resolveContentElements h (Single item) = resolveAll h [item]"

datatype construction =
    Constructed scrollbar
  | ResolveFailed error
  | InitFailed error scrollbar

text \<open>The constructor, on a page whose elements carry the attributes \<open>attrs\<close>. The
  fields get their initialisers, the options are resolved in the order of the source,
  and \<open>init\<close> runs last.\<close>

definition DetachedScrollbar :: "host \<Rightarrow> (node \<times> string) set \<Rightarrow> options \<Rightarrow> construction" where
  "DetachedScrollbar h attrs opts =
     (case resolveElement h (opt_track opts) of
        Inl e \<Rightarrow> ResolveFailed e
      | Inr tr \<Rightarrow>
     (case resolveElement h (opt_thumb opts) of
        Inl e \<Rightarrow> ResolveFailed e
      | Inr th \<Rightarrow>
     (case resolveElement h (opt_viewport opts) of
        Inl e \<Rightarrow> ResolveFailed e
      | Inr vp \<Rightarrow>
     (case resolveContentElements h (opt_content opts) of
        Inl e \<Rightarrow> ResolveFailed e
      | Inr els \<Rightarrow>
          (case init h
             \<lparr>track = tr, thumb = th, contentEls = els, viewport = vp,
              direction = (case opt_direction opts of None \<Rightarrow> Horizontal | Some d \<Rightarrow> d),
              keyboardSteps = (case opt_keyboardSteps opts of None \<Rightarrow> Fin 50 | Some k \<Rightarrow> k),
              trackClick = (case opt_trackClick opts of None \<Rightarrow> True | Some b \<Rightarrow> b),
              autoResize = (case opt_autoResize opts of None \<Rightarrow> True | Some b \<Rightarrow> b),
              resizeDebounce = (case opt_resizeDebounce opts of None \<Rightarrow> Fin 100 | Some d \<Rightarrow> d),
              onScrollCb = opt_onScroll opts,
              onDragStartCb = opt_onDragStart opts,
              onDragEndCb = opt_onDragEnd opts,
              ratio = Fin 0, dragStep = Fin 0, lastPointer = Fin 0, isDragging = False,
              resizeTimer = None, destroyed = False,
              attributes = attrs, listeners = {}, timers = {}, nextTimer = 0, trace = []\<rparr>
           of
             Threw e s \<Rightarrow> InitFailed e s
           | Returned s \<Rightarrow> Constructed s)))))"

subsection \<open>Pointer drag\<close>

text \<open>A mouse event has \<^verbatim>\<open>clientX\<close> and \<^verbatim>\<open>clientY\<close>; a touch event has a list of touches, and
  reading a coordinate of \<^verbatim>\<open>touches[0]\<close> throws when the list is empty.\<close>

datatype pointer_event = MouseEvent number number | TouchEvent "(number \<times> number) list"

fun pointerPos :: "scrollbar \<Rightarrow> pointer_event \<Rightarrow> number option" where
  "pointerPos s (MouseEvent x y) = Some (if isHorizontal s then x else y)"
| "pointerPos s (TouchEvent []) = None"
| "pointerPos s (TouchEvent ((x, y) # _)) = Some (if isHorizontal s then x else y)"

definition handleDown :: "pointer_event \<Rightarrow> scrollbar \<Rightarrow> outcome" where
  "handleDown e s =
     (let s1 = emit PreventDefault s;
          s2 = emit (FocusElement (thumb s1)) s1;
          s3 = s2\<lparr>isDragging := True\<rparr>
      in case pointerPos s3 e of
           None \<Rightarrow> Threw TypeError s3
         | Some p \<Rightarrow>
             let s4 = s3\<lparr>lastPointer := p\<rparr>;
                 s5 = addEventListener Document ''mousemove'' OnMove s4;
                 s6 = addEventListener Document ''touchmove'' OnMove s5;
                 s7 = addEventListener Document ''mouseup'' OnUp s6;
                 s8 = addEventListener Document ''touchend'' OnUp s7
             in Returned (if onDragStartCb s8 then emit OnDragStart s8 else s8))"

definition handleMove :: "host \<Rightarrow> pointer_event \<Rightarrow> scrollbar \<Rightarrow> outcome" where
  "handleMove h e s =
     (let s1 = emit PreventDefault s in
      case pointerPos s1 e of
        None \<Rightarrow> Threw TypeError s1
      | Some pos \<Rightarrow>
          let delta = lastPointer s1 - pos;
              s2 = s1\<lparr>lastPointer := pos\<rparr>;
              newPos = currentThumbPos h s2 - delta
          in clampAndApply h (s2\<lparr>ratio := newPos / (trackSize h s2 - thumbSize h s2)\<rparr>))"

definition handleUp :: "scrollbar \<Rightarrow> scrollbar" where
  "handleUp s =
     (let s1 = s\<lparr>isDragging := False\<rparr>;
          s2 = removeEventListener Document ''mousemove'' OnMove s1;
          s3 = removeEventListener Document ''touchmove'' OnMove s2;
          s4 = removeEventListener Document ''mouseup'' OnUp s3;
          s5 = removeEventListener Document ''touchend'' OnUp s4
      in if onDragEndCb s5 then emit OnDragEnd s5 else s5)"

subsection \<open>Keyboard\<close>

definition backKey :: "scrollbar \<Rightarrow> string" where
  "backKey s = (if isHorizontal s then ''ArrowLeft'' else ''ArrowUp'')"

definition fwdKey :: "scrollbar \<Rightarrow> string" where
  "fwdKey s = (if isHorizontal s then ''ArrowRight'' else ''ArrowDown'')"

definition handleKey :: "host \<Rightarrow> string \<Rightarrow> scrollbar \<Rightarrow> outcome" where
  "handleKey h key s =
     (let step = dragStep s / (trackSize h s - thumbSize h s) in
      if key = backKey s then
        clampAndApply h ((emit PreventDefault s)\<lparr>ratio := ratio s - step\<rparr>)
      else if key = fwdKey s then
        clampAndApply h ((emit PreventDefault s)\<lparr>ratio := ratio s + step\<rparr>)
      else if key = ''Home'' then
        clampAndApply h ((emit PreventDefault s)\<lparr>ratio := Fin 0\<rparr>)
      else if key = ''End'' then
        clampAndApply h ((emit PreventDefault s)\<lparr>ratio := Fin 1\<rparr>)
      else Returned s)"

subsection \<open>Track click\<close>

record click_event =
  target :: node
  clientX :: number
  clientY :: number

definition handleTrackClick :: "host \<Rightarrow> click_event \<Rightarrow> scrollbar \<Rightarrow> outcome" where
  "handleTrackClick h e s =
     (if target e = thumb s \<or> contains h (thumb s) (target e) then Returned s
      else
        let rect = layout h (trace s) (track s);
            clickPos = (if isHorizontal s then clientX e - rectLeft rect
                        else clientY e - rectTop rect)
        in clampAndApply h (s\<lparr>ratio := clickPos / trackSize h s\<rparr>))"

subsection \<open>Resize\<close>

definition handleResize :: "scrollbar \<Rightarrow> scrollbar" where
  "handleResize s =
     (let s1 = (case resizeTimer s of Some i \<Rightarrow> clearTimeout i s | None \<Rightarrow> s);
          (i, s2) = setTimeout (resizeDebounce s1) s1
      in s2\<lparr>resizeTimer := Some i\<rparr>)"

text \<open>The callback that \<open>handleResize\<close> schedules.\<close>

definition resizeCallback :: "host \<Rightarrow> scrollbar \<Rightarrow> outcome" where
  "resizeCallback h s =
     (case sizeThumb h s of
        Threw e s1 \<Rightarrow> Threw e s1
      | Returned s1 \<Rightarrow> applyPosition h s1)"

section \<open>Events of the page\<close>

text \<open>
  The page calls a handler only while it is registered for the event's target and type,
  and runs the callback of a timer only while the timer is pending. The instance binds
  one handler per event type.
\<close>

datatype dom_event =
    Pointer pointer_event
  | Keyboard string
  | Click click_event
  | Plain

fun invoke :: "host \<Rightarrow> handler \<Rightarrow> dom_event \<Rightarrow> scrollbar \<Rightarrow> outcome" where
  "invoke h OnDown (Pointer e) s = handleDown e s"
| "invoke h OnMove (Pointer e) s = handleMove h e s"
| "invoke h OnUp e s = Returned (handleUp s)"
| "invoke h OnKey (Keyboard k) s = handleKey h k s"
| "invoke h OnTrackClick (Click e) s = handleTrackClick h e s"
| "invoke h OnResize e s = Returned (handleResize s)"
| "invoke h f e s = Returned s"

definition handlerOf :: "string \<Rightarrow> handler option" where
  "handlerOf ty =
     (if ty = ''mousedown'' \<or> ty = ''touchstart'' then Some OnDown
      else if ty = ''mousemove'' \<or> ty = ''touchmove'' then Some OnMove
      else if ty = ''mouseup'' \<or> ty = ''touchend'' then Some OnUp
      else if ty = ''keydown'' then Some OnKey
      else if ty = ''click'' then Some OnTrackClick
      else if ty = ''resize'' then Some OnResize
      else None)"

definition dispatchEvent :: "host \<Rightarrow> event_target \<Rightarrow> string \<Rightarrow> dom_event \<Rightarrow> scrollbar \<Rightarrow> outcome" where
  "dispatchEvent h t ty e s =
     (case handlerOf ty of
        None \<Rightarrow> Returned s
      | Some f \<Rightarrow> if (t, ty, f) \<in> listeners s then invoke h f e s else Returned s)"

definition fireTimer :: "host \<Rightarrow> nat \<Rightarrow> scrollbar \<Rightarrow> outcome" where
  "fireTimer h i s =
     (if i \<in> timers s then resizeCallback h (s\<lparr>timers := timers s - {i}\<rparr>)
      else Returned s)"

section \<open>Vocabulary of the statements\<close>

fun returns :: "outcome \<Rightarrow> bool" where
  "returns (Returned s) = True"
| "returns (Threw e s) = False"

fun state_of :: "outcome \<Rightarrow> scrollbar" where
  "state_of (Returned s) = s"
| "state_of (Threw e s) = s"

text \<open>The specification's \<open>clamp(x, lo, hi)\<close>, as \<^verbatim>\<open>Math.min(Math.max(x, lo), hi)\<close>. The
  program clamps with two comparisons (\<open>clampAndApply\<close>); the two agree
  (\<open>clampAndApply_eq\<close> below), also on NaN, which both leave as it is.\<close>

definition clamp :: "number \<Rightarrow> number \<Rightarrow> number \<Rightarrow> number" where
  "clamp x lo hi = Math_min (Math_max x lo) hi"

text \<open>The listeners that \<open>init\<close> and \<open>handleDown\<close> register for an instance.\<close>

definition registrations :: "scrollbar \<Rightarrow> (event_target \<times> string \<times> handler) set" where
  "registrations s =
     {(Element (thumb s), ''mousedown'', OnDown), (Element (thumb s), ''touchstart'', OnDown),
      (Element (thumb s), ''keydown'', OnKey),
      (Document, ''mousemove'', OnMove), (Document, ''touchmove'', OnMove),
      (Document, ''mouseup'', OnUp), (Document, ''touchend'', OnUp)}
     \<union> (if trackClick s then {(Element (track s), ''click'', OnTrackClick)} else {})
     \<union> (if autoResize s then {(Window, ''resize'', OnResize)} else {})"

subsection \<open>Example pages\<close>

text \<open>A horizontal page whose layout does not react to the scrollbar's writes: the track
  is node 10, the thumb node 20, the viewport node 30 and the content nodes 40 and 41.
  \<open>page_of tr th vp ct left\<close> gives them the widths \<open>tr\<close>, \<open>th\<close>, \<open>vp\<close>, the scroll width
  \<open>ct\<close>, and puts the thumb at offset \<open>left\<close>.\<close>

definition zero_box :: box where
  "zero_box =
     \<lparr>offsetWidth = Fin 0, offsetHeight = Fin 0, scrollWidth = Fin 0, scrollHeight = Fin 0,
      offsetLeft = Fin 0, offsetTop = Fin 0, rectLeft = Fin 0, rectTop = Fin 0\<rparr>"

definition page_of :: "real \<Rightarrow> real \<Rightarrow> real \<Rightarrow> real \<Rightarrow> real \<Rightarrow> host" where
  "page_of tr th vp ct left =
     \<lparr>layout = (\<lambda>effects n.
        if n = 10 then zero_box\<lparr>offsetWidth := Fin tr\<rparr>
        else if n = 20 then zero_box\<lparr>offsetWidth := Fin th, offsetLeft := Fin left\<rparr>
        else if n = 30 then zero_box\<lparr>offsetWidth := Fin vp\<rparr>
        else if n = 40 \<or> n = 41 then zero_box\<lparr>scrollWidth := Fin ct\<rparr>
        else zero_box),
      contains = (\<lambda>a b. a = b),
      querySelector = (\<lambda>sel.
        if sel = ''#track'' then Some 10
        else if sel = ''#thumb'' then Some 20
        else if sel = ''#viewport'' then Some 30
        else if sel = ''#content'' then Some 40
        else None)\<rparr>"

definition example_options :: options where
  "example_options =
     \<lparr>opt_track = Selector ''#track'', opt_thumb = Selector ''#thumb'',
      opt_content = Single (Selector ''#content''), opt_viewport = Selector ''#viewport'',
      opt_direction = None, opt_keyboardSteps = None, opt_trackClick = None,
      opt_autoResize = None, opt_resizeDebounce = None,
      opt_onScroll = True, opt_onDragStart = True, opt_onDragEnd = True\<rparr>"

text \<open>The instance that the constructor returns for these options on the page
  \<open>page_of 200 100 400 800 0\<close> (\<open>example_constructed\<close> below).\<close>

definition example_bar :: scrollbar where
  "example_bar =
     \<lparr>track = 10, thumb = 20, contentEls = [40], viewport = 30, direction = Horizontal,
      keyboardSteps = Fin 50, trackClick = True, autoResize = True, resizeDebounce = Fin 100,
      onScrollCb = True, onDragStartCb = True, onDragEndCb = True,
      ratio = Fin 0, dragStep = Fin 4, lastPointer = Fin 0, isDragging = False,
      resizeTimer = None, destroyed = False,
      attributes = {(20, ''tabindex''), (20, ''role''), (20, ''aria-valuemin''),
                    (20, ''aria-valuemax''), (20, ''aria-valuenow''), (20, ''aria-label'')},
      listeners = {(Element 20, ''mousedown'', OnDown), (Element 20, ''touchstart'', OnDown),
                   (Element 20, ''keydown'', OnKey), (Element 10, ''click'', OnTrackClick),
                   (Window, ''resize'', OnResize)},
      timers = {}, nextTimer = 0,
      trace = [SetAttribute 20 ''tabindex'' (Str ''0''),
               SetAttribute 20 ''role'' (Str ''slider''),
               SetAttribute 20 ''aria-valuemin'' (Str ''0''),
               SetAttribute 20 ''aria-valuemax'' (Str ''100''),
               SetAttribute 20 ''aria-valuenow'' (Str ''0''),
               SetAttribute 20 ''aria-label'' (Str ''Scrollbar''),
               AddEventListener (Element 20) ''mousedown'' OnDown,
               AddEventListener (Element 20) ''touchstart'' OnDown,
               AddEventListener (Element 20) ''keydown'' OnKey,
               AddEventListener (Element 10) ''click'' OnTrackClick,
               AddEventListener Window ''resize'' OnResize,
               SetStyle 20 CssWidth (Px (Fin 100))]\<rparr>"

text \<open>The instance that the constructor returns on a page whose content is exactly as
  wide as its viewport, \<open>page_of 200 200 100 100 0\<close>: the thumb is sized to the whole
  track (\<open>fit_constructed\<close> below).\<close>

definition fit_bar :: scrollbar where
  "fit_bar =
     example_bar\<lparr>trace := butlast (trace example_bar) @ [SetStyle 20 CssWidth (Px (Fin 200))]\<rparr>"

text \<open>The example instance after a mouse press on its thumb at \<open>x = 10\<close>, and that
  instance destroyed before the button is released.\<close>

definition pressed_bar :: scrollbar where
  "pressed_bar =
     state_of (dispatchEvent (page_of 200 100 400 800 0) (Element 20) ''mousedown''
       (Pointer (MouseEvent (Fin 10) (Fin 0))) example_bar)"

definition destroyed_mid_drag :: scrollbar where
  "destroyed_mid_drag = destroy pressed_bar"

text \<open>The page \<open>h\<close> with the scroll width of the content node 41 changed to \<open>w\<close>.\<close>

definition second_row :: "real \<Rightarrow> host \<Rightarrow> host" where
  "second_row w h =
     h\<lparr>layout := (\<lambda>effects n.
        if n = 41 then zero_box\<lparr>scrollWidth := Fin w\<rparr> else layout h effects n)\<rparr>"

text \<open>A vertical page: the same nodes, measured by their heights. \<open>column_of tr th vp ct
  off\<close> gives the track, the thumb and the viewport the heights \<open>tr\<close>, \<open>th\<close>, \<open>vp\<close>, the
  content the scroll height \<open>ct\<close>, and puts the thumb at offset \<open>off\<close>; every width is 0.\<close>

definition column_of :: "real \<Rightarrow> real \<Rightarrow> real \<Rightarrow> real \<Rightarrow> real \<Rightarrow> host" where
  "column_of tr th vp ct off =
     \<lparr>layout = (\<lambda>effects n.
        if n = 10 then zero_box\<lparr>offsetHeight := Fin tr\<rparr>
        else if n = 20 then zero_box\<lparr>offsetHeight := Fin th, offsetTop := Fin off\<rparr>
        else if n = 30 then zero_box\<lparr>offsetHeight := Fin vp\<rparr>
        else if n = 40 \<or> n = 41 then zero_box\<lparr>scrollHeight := Fin ct\<rparr>
        else zero_box),
      contains = (\<lambda>a b. a = b),
      querySelector = (\<lambda>sel. None)\<rparr>"

section \<open>Basic facts\<close>

lemma minus_Fin [simp]: "Fin a - Fin b = Fin (a - b)"
  by (simp add: minus_number_def)

lemma clamp_code:
  "(if Fin 1 < (if r < Fin 0 then Fin 0 else r) then Fin 1
    else (if r < Fin 0 then Fin 0 else r)) = clamp r (Fin 0) (Fin 1)"
  by (cases r) (auto simp: clamp_def Math_min_def Math_max_def)

lemma clamp_Fin: "clamp (Fin a) (Fin 0) (Fin 1) = Fin (min 1 (max 0 a))"
  by (simp add: clamp_def Math_min_def Math_max_def min_def max_def)

lemma clamp_PosInfinity: "clamp PosInfinity (Fin 0) (Fin 1) = Fin 1"
  by (simp add: clamp_def Math_min_def Math_max_def)

lemma clamp_NegInfinity: "clamp NegInfinity (Fin 0) (Fin 1) = Fin 0"
  by (simp add: clamp_def Math_min_def Math_max_def)

lemma clamp_NaN: "clamp NaN (Fin 0) (Fin 1) = NaN"
  by (simp add: clamp_def Math_min_def Math_max_def)

text \<open>Apart from NaN, a clamped value lies in the unit interval.\<close>

lemma clamp_unit: "r \<noteq> NaN \<Longrightarrow> Fin 0 \<le> clamp r (Fin 0) (Fin 1) \<and> clamp r (Fin 0) (Fin 1) \<le> Fin 1"
  by (cases r) (auto simp: clamp_def Math_min_def Math_max_def less_eq_number_def)

lemma foldl_emit:
  "foldl (\<lambda>a el. a\<lparr>trace := trace a @ [f el]\<rparr>) s xs = s\<lparr>trace := trace s @ map f xs\<rparr>"
  by (induction xs arbitrary: s) simp_all

lemma contentSize_Some: "contentEls s \<noteq> [] \<Longrightarrow> \<exists>ct. contentSize h s = Some ct"
  by (cases "contentEls s") (simp_all add: contentSize_def)

lemma contentSize_None: "contentEls s = [] \<Longrightarrow> contentSize h s = None"
  by (simp add: contentSize_def)

lemma contentSize_nonempty: "contentSize h s = Some ct \<Longrightarrow> contentEls s \<noteq> []"
  by (auto simp: contentSize_def)

lemma isHorizontal_ratio [simp]: "isHorizontal (s\<lparr>ratio := r\<rparr>) = isHorizontal s"
  by (simp add: isHorizontal_def)

lemma measure_ratio [simp]:
  "trackSize h (s\<lparr>ratio := r\<rparr>) = trackSize h s"
  "thumbSize h (s\<lparr>ratio := r\<rparr>) = thumbSize h s"
  "viewportSize h (s\<lparr>ratio := r\<rparr>) = viewportSize h s"
  "contentSize h (s\<lparr>ratio := r\<rparr>) = contentSize h s"
  "currentThumbPos h (s\<lparr>ratio := r\<rparr>) = currentThumbPos h s"
  by (simp_all add: trackSize_def thumbSize_def viewportSize_def contentSize_def
      currentThumbPos_def split: list.splits)

text \<open>What one application of the position does, in full.\<close>

lemma applyPosition_eq:
  assumes "contentSize h s = Some ct"
  shows "applyPosition h s =
    Returned (s\<lparr>attributes := insert (thumb s, ''aria-valuenow'') (attributes s),
      trace := trace s
        @ [SetStyle (thumb s) (if isHorizontal s then CssLeft else CssTop)
             (Px (ratio s * (trackSize h s - thumbSize h s)))]
        @ map (\<lambda>el. SetStyle el (if isHorizontal s then CssLeft else CssTop)
             (Px (- ratio s * (ct - viewportSize h s)))) (contentEls s)
        @ [SetAttribute (thumb s) ''aria-valuenow'' (NumStr (Math_round (ratio s * Fin 100)))]
        @ (if onScrollCb s then [OnScroll (ratio s)] else [])\<rparr>)"
  using assms
  by (simp add: applyPosition_def Let_def foldl_emit emit_def setAttribute_def)

lemma applyPosition_empty: "contentEls s = [] \<Longrightarrow> applyPosition h s = Threw TypeError s"
  by (simp add: applyPosition_def contentSize_None)

lemma applyPosition_returns: "returns (applyPosition h s) = (contentEls s \<noteq> [])"
proof (cases "contentEls s = []")
  case True
  then show ?thesis by (simp add: applyPosition_empty)
next
  case False
  then obtain ct where "contentSize h s = Some ct"
    using contentSize_Some by blast
  then show ?thesis using False by (simp add: applyPosition_eq)
qed

lemma applyPosition_ratio: "ratio (state_of (applyPosition h s)) = ratio s"
proof (cases "contentEls s = []")
  case True
  then show ?thesis by (simp add: applyPosition_empty)
next
  case False
  then obtain ct where "contentSize h s = Some ct"
    using contentSize_Some by blast
  then show ?thesis by (simp add: applyPosition_eq)
qed

text \<open>The two comparisons of \<open>clampAndApply\<close> are the specification's clamp.\<close>

lemma clampAndApply_eq:
  "clampAndApply h s = applyPosition h (s\<lparr>ratio := clamp (ratio s) (Fin 0) (Fin 1)\<rparr>)"
proof -
  have "clampAndApply h s = applyPosition h (s\<lparr>ratio :=
     (if Fin 1 < (if ratio s < Fin 0 then Fin 0 else ratio s) then Fin 1
      else (if ratio s < Fin 0 then Fin 0 else ratio s))\<rparr>)"
    by (simp add: clampAndApply_def Let_def)
  then show ?thesis by (simp only: clamp_code)
qed

lemma scrollToOffset_eq:
  assumes "contentSize h s = Some ct"
  shows "scrollToOffset h x s =
     applyPosition h (s\<lparr>ratio := clamp ((x - viewportSize h s / Fin 2) / (ct - viewportSize h s))
        (Fin 0) (Fin 1)\<rparr>)"
  using assms by (simp add: scrollToOffset_def Let_def clampAndApply_eq)

subsection \<open>The example pages\<close>

lemma example_constructed:
  "DetachedScrollbar (page_of 200 100 400 800 0) {} example_options = Constructed example_bar"
  by (simp add: DetachedScrollbar_def page_of_def example_options_def example_bar_def
      init_def sizeThumb_def Let_def hasAttribute_def setAttribute_def addEventListener_def
      emit_def viewportSize_def contentSize_def trackSize_def isHorizontal_def zero_box_def
      Math_min_def insert_commute cong: let_weak_cong)

lemma page_of_sizes [simp]:
  "trackSize (page_of tr th vp ct left) (example_bar\<lparr>trace := es\<rparr>) = Fin tr"
  "thumbSize (page_of tr th vp ct left) (example_bar\<lparr>trace := es\<rparr>) = Fin th"
  "viewportSize (page_of tr th vp ct left) (example_bar\<lparr>trace := es\<rparr>) = Fin vp"
  "contentSize (page_of tr th vp ct left) (example_bar\<lparr>trace := es\<rparr>) = Some (Fin ct)"
  "currentThumbPos (page_of tr th vp ct left) (example_bar\<lparr>trace := es\<rparr>) = Fin left"
  by (simp_all add: trackSize_def thumbSize_def viewportSize_def contentSize_def
      currentThumbPos_def isHorizontal_def page_of_def example_bar_def zero_box_def)

subsection \<open>Frame facts\<close>

lemma applyPosition_frame:
  "lastPointer (state_of (applyPosition h s)) = lastPointer s"
  "dragStep (state_of (applyPosition h s)) = dragStep s"
  "isDragging (state_of (applyPosition h s)) = isDragging s"
  "destroyed (state_of (applyPosition h s)) = destroyed s"
  "listeners (state_of (applyPosition h s)) = listeners s"
  "timers (state_of (applyPosition h s)) = timers s"
  "contentEls (state_of (applyPosition h s)) = contentEls s"
proof -
  consider "contentEls s = []" | ct where "contentSize h s = Some ct"
    using contentSize_Some by blast
  then have "lastPointer (state_of (applyPosition h s)) = lastPointer s
    \<and> dragStep (state_of (applyPosition h s)) = dragStep s
    \<and> isDragging (state_of (applyPosition h s)) = isDragging s
    \<and> destroyed (state_of (applyPosition h s)) = destroyed s
    \<and> listeners (state_of (applyPosition h s)) = listeners s
    \<and> timers (state_of (applyPosition h s)) = timers s
    \<and> contentEls (state_of (applyPosition h s)) = contentEls s"
  proof cases
    case 1
    then show ?thesis by (simp add: applyPosition_empty)
  next
    case 2
    then show ?thesis by (simp add: applyPosition_eq)
  qed
  then show "lastPointer (state_of (applyPosition h s)) = lastPointer s"
    "dragStep (state_of (applyPosition h s)) = dragStep s"
    "isDragging (state_of (applyPosition h s)) = isDragging s"
    "destroyed (state_of (applyPosition h s)) = destroyed s"
    "listeners (state_of (applyPosition h s)) = listeners s"
    "timers (state_of (applyPosition h s)) = timers s"
    "contentEls (state_of (applyPosition h s)) = contentEls s"
    by simp_all
qed

lemma isHorizontal_fields [simp]:
  "isHorizontal (s\<lparr>lastPointer := p\<rparr>) = isHorizontal s"
  "isHorizontal (s\<lparr>dragStep := d\<rparr>) = isHorizontal s"
  "isHorizontal (s\<lparr>trace := es\<rparr>) = isHorizontal s"
  "isHorizontal (emit e s) = isHorizontal s"
  by (simp_all add: isHorizontal_def emit_def)

lemma measure_lastPointer [simp]:
  "trackSize h (s\<lparr>lastPointer := p\<rparr>) = trackSize h s"
  "thumbSize h (s\<lparr>lastPointer := p\<rparr>) = thumbSize h s"
  "currentThumbPos h (s\<lparr>lastPointer := p\<rparr>) = currentThumbPos h s"
  "contentSize h (s\<lparr>lastPointer := p\<rparr>) = contentSize h s"
  by (simp_all add: trackSize_def thumbSize_def currentThumbPos_def contentSize_def
      split: list.splits)

lemma trackSize_dragStep [simp]: "trackSize h (s\<lparr>dragStep := d\<rparr>) = trackSize h s"
  by (simp add: trackSize_def)

lemma pointerPos_emit [simp]: "pointerPos (emit e s) ev = pointerPos s ev"
  by (cases "(s, ev)" rule: pointerPos.cases) simp_all

lemma contentEls_emit [simp]: "contentEls (emit e s) = contentEls s"
  by (simp add: emit_def)

lemma handleMove_eq:
  assumes "pointerPos s e = Some pos"
  shows "handleMove h e s =
    applyPosition h
      ((emit PreventDefault s)\<lparr>lastPointer := pos,
         ratio := clamp ((currentThumbPos h (emit PreventDefault s) - (lastPointer s - pos))
                    / (trackSize h (emit PreventDefault s) - thumbSize h (emit PreventDefault s)))
                  (Fin 0) (Fin 1)\<rparr>)"
  using assms by (simp add: handleMove_def Let_def clampAndApply_eq) (simp add: emit_def)

lemma sizeThumb_eq:
  assumes "contentSize h s = Some ct"
  shows "sizeThumb h s =
    Returned ((emit (SetStyle (thumb s) (if isHorizontal s then CssWidth else CssHeight)
                 (Px (trackSize h s * Math_min (viewportSize h s / ct) (Fin 1)))) s)
       \<lparr>dragStep :=
          trackSize h (emit (SetStyle (thumb s) (if isHorizontal s then CssWidth else CssHeight)
                 (Px (trackSize h s * Math_min (viewportSize h s / ct) (Fin 1)))) s)
          / keyboardSteps s\<rparr>)"
  using assms by (simp add: sizeThumb_def Let_def) (simp add: emit_def)

lemma sizeThumb_empty: "contentEls s = [] \<Longrightarrow> sizeThumb h s = Threw TypeError s"
  by (simp add: sizeThumb_def contentSize_None)

subsection \<open>destroy\<close>

lemma destroy_again: "destroyed s \<Longrightarrow> destroy s = s"
  by (simp add: destroy_def)

lemma removeEventListener_fields [simp]:
  "destroyed (removeEventListener t ty f s) = destroyed s"
  "track (removeEventListener t ty f s) = track s"
  "thumb (removeEventListener t ty f s) = thumb s"
  "viewport (removeEventListener t ty f s) = viewport s"
  "contentEls (removeEventListener t ty f s) = contentEls s"
  "direction (removeEventListener t ty f s) = direction s"
  "ratio (removeEventListener t ty f s) = ratio s"
  "isDragging (removeEventListener t ty f s) = isDragging s"
  "onScrollCb (removeEventListener t ty f s) = onScrollCb s"
  "onDragEndCb (removeEventListener t ty f s) = onDragEndCb s"
  "trackClick (removeEventListener t ty f s) = trackClick s"
  "autoResize (removeEventListener t ty f s) = autoResize s"
  "resizeTimer (removeEventListener t ty f s) = resizeTimer s"
  "timers (removeEventListener t ty f s) = timers s"
  "listeners (removeEventListener t ty f s) = listeners s - {(t, ty, f)}"
  "trace (removeEventListener t ty f s) = trace s @ [RemoveEventListener t ty f]"
  by (simp_all add: removeEventListener_def emit_def)

lemma clearTimeout_fields [simp]:
  "destroyed (clearTimeout i s) = destroyed s"
  "track (clearTimeout i s) = track s"
  "thumb (clearTimeout i s) = thumb s"
  "viewport (clearTimeout i s) = viewport s"
  "contentEls (clearTimeout i s) = contentEls s"
  "direction (clearTimeout i s) = direction s"
  "ratio (clearTimeout i s) = ratio s"
  "isDragging (clearTimeout i s) = isDragging s"
  "onScrollCb (clearTimeout i s) = onScrollCb s"
  "listeners (clearTimeout i s) = listeners s"
  "timers (clearTimeout i s) = timers s - {i}"
  "trace (clearTimeout i s) = trace s @ [ClearTimeout i]"
  by (simp_all add: clearTimeout_def emit_def)

lemma destroy_destroyed: "destroyed (destroy s)"
  by (simp add: destroy_def Let_def split: option.splits)

lemma destroy_frame:
  "track (destroy s) = track s"
  "thumb (destroy s) = thumb s"
  "viewport (destroy s) = viewport s"
  "contentEls (destroy s) = contentEls s"
  "direction (destroy s) = direction s"
  "ratio (destroy s) = ratio s"
  "isDragging (destroy s) = isDragging s"
  "onScrollCb (destroy s) = onScrollCb s"
  by (simp_all add: destroy_def Let_def split: option.splits)

lemma destroy_listeners:
  "\<not> destroyed s \<Longrightarrow> listeners (destroy s) = listeners s - registrations s"
  by (auto simp: destroy_def Let_def registrations_def split: option.splits)

lemma destroy_timers:
  "\<not> destroyed s \<Longrightarrow> timers (destroy s) = timers s - set_option (resizeTimer s)"
  by (auto simp: destroy_def Let_def split: option.splits)

lemma dispatchEvent_unregistered:
  "listeners s = {} \<Longrightarrow> dispatchEvent h t ty e s = Returned s"
  by (simp add: dispatchEvent_def split: option.splits)

lemma fireTimer_idle: "timers s = {} \<Longrightarrow> fireTimer h i s = Returned s"
  by (simp add: fireTimer_def)

subsection \<open>Measuring the example pages\<close>

lemma page_of_measure:
  assumes "track s = 10" and "thumb s = 20" and "viewport s = 30"
    and "contentEls s = 40 # els" and "direction s = Horizontal"
  shows "trackSize (page_of tr th vp ct left) s = Fin tr"
    and "thumbSize (page_of tr th vp ct left) s = Fin th"
    and "viewportSize (page_of tr th vp ct left) s = Fin vp"
    and "contentSize (page_of tr th vp ct left) s = Some (Fin ct)"
    and "currentThumbPos (page_of tr th vp ct left) s = Fin left"
  using assms
  by (simp_all add: trackSize_def thumbSize_def viewportSize_def contentSize_def
      currentThumbPos_def isHorizontal_def page_of_def zero_box_def)

lemma example_fields:
  "track example_bar = 10" "thumb example_bar = 20" "viewport example_bar = 30"
  "contentEls example_bar = [40]" "direction example_bar = Horizontal"
  "ratio example_bar = Fin 0" "onScrollCb example_bar" "\<not> destroyed example_bar"
  "isHorizontal example_bar"
  by (simp_all add: example_bar_def isHorizontal_def)

lemma fit_constructed:
  "DetachedScrollbar (page_of 200 200 100 100 0) {} example_options = Constructed fit_bar"
  by (simp add: DetachedScrollbar_def page_of_def example_options_def example_bar_def
      fit_bar_def init_def sizeThumb_def Let_def hasAttribute_def setAttribute_def
      addEventListener_def emit_def viewportSize_def contentSize_def trackSize_def
      isHorizontal_def zero_box_def Math_min_def insert_commute cong: let_weak_cong)

lemma pressed_bar_eq:
  "pressed_bar =
     example_bar\<lparr>lastPointer := Fin 10, isDragging := True,
       listeners := {(Document, ''mousemove'', OnMove), (Document, ''touchmove'', OnMove),
                     (Document, ''mouseup'', OnUp), (Document, ''touchend'', OnUp)}
                    \<union> listeners example_bar,
       trace := trace example_bar @
         [PreventDefault, FocusElement 20,
          AddEventListener Document ''mousemove'' OnMove,
          AddEventListener Document ''touchmove'' OnMove,
          AddEventListener Document ''mouseup'' OnUp,
          AddEventListener Document ''touchend'' OnUp,
          OnDragStart]\<rparr>"
  by (simp add: pressed_bar_def dispatchEvent_def handlerOf_def handleDown_def Let_def
      addEventListener_def emit_def isHorizontal_def example_bar_def insert_commute
      cong: let_weak_cong)

subsection \<open>Effects leave the configuration alone\<close>

lemma emit_fields [simp]:
  "track (emit e s) = track s"
  "thumb (emit e s) = thumb s"
  "viewport (emit e s) = viewport s"
  "direction (emit e s) = direction s"
  "isDragging (emit e s) = isDragging s"
  "trace (emit e s) = trace s @ [e]"
  by (simp_all add: emit_def)

lemma setAttribute_fields [simp]:
  "track (setAttribute n a v s) = track s"
  "thumb (setAttribute n a v s) = thumb s"
  "viewport (setAttribute n a v s) = viewport s"
  "contentEls (setAttribute n a v s) = contentEls s"
  "direction (setAttribute n a v s) = direction s"
  "trackClick (setAttribute n a v s) = trackClick s"
  "autoResize (setAttribute n a v s) = autoResize s"
  by (simp_all add: setAttribute_def emit_def)

lemma addEventListener_fields [simp]:
  "track (addEventListener t ty f s) = track s"
  "thumb (addEventListener t ty f s) = thumb s"
  "viewport (addEventListener t ty f s) = viewport s"
  "contentEls (addEventListener t ty f s) = contentEls s"
  "direction (addEventListener t ty f s) = direction s"
  "trackClick (addEventListener t ty f s) = trackClick s"
  "autoResize (addEventListener t ty f s) = autoResize s"
  by (simp_all add: addEventListener_def emit_def)

lemma init_empty:
  assumes "contentEls s = []"
  shows "\<exists>s'. init h s = Threw TypeError s'"
proof -
  obtain s8 where i: "init h s = sizeThumb h s8" and c: "contentEls s8 = contentEls s"
    by (simp add: init_def Let_def)
  show ?thesis
    using i c assms by (simp add: sizeThumb_empty)
qed

text \<open>Two hosts that report the same boxes for the track, the thumb and the viewport,
  and the same scroll size for the first content element, are measured alike.\<close>

lemma same_measures:
  assumes "\<forall>es. layout h es (track s) = layout h' es (track s)"
    and "\<forall>es. layout h es (thumb s) = layout h' es (thumb s)"
    and "\<forall>es. layout h es (viewport s) = layout h' es (viewport s)"
    and "contentEls s = el # els"
    and "\<forall>es. scrollWidth (layout h es el) = scrollWidth (layout h' es el)"
    and "\<forall>es. scrollHeight (layout h es el) = scrollHeight (layout h' es el)"
    and "track s' = track s" and "thumb s' = thumb s" and "viewport s' = viewport s"
    and "contentEls s' = contentEls s"
  shows "trackSize h s' = trackSize h' s'"
    and "thumbSize h s' = thumbSize h' s'"
    and "viewportSize h s' = viewportSize h' s'"
    and "contentSize h s' = contentSize h' s'"
  using assms
  by (simp_all add: trackSize_def thumbSize_def viewportSize_def contentSize_def)

text \<open>\<open>clampAndApply\<close> brings every ratio but NaN into the unit interval.\<close>

lemma clampAndApply_unit:
  "ratio s \<noteq> NaN \<Longrightarrow>
     Fin 0 \<le> ratio (state_of (clampAndApply h s)) \<and> ratio (state_of (clampAndApply h s)) \<le> Fin 1"
  by (simp add: clampAndApply_eq applyPosition_ratio clamp_unit)

lemma column_of_measure:
  assumes "track s = 10" and "thumb s = 20" and "viewport s = 30"
    and "contentEls s = 40 # els" and "direction s = Vertical"
  shows "trackSize (column_of tr th vp ct off) s = Fin tr"
    and "thumbSize (column_of tr th vp ct off) s = Fin th"
    and "viewportSize (column_of tr th vp ct off) s = Fin vp"
    and "contentSize (column_of tr th vp ct off) s = Some (Fin ct)"
    and "currentThumbPos (column_of tr th vp ct off) s = Fin off"
  using assms
  by (simp_all add: trackSize_def thumbSize_def viewportSize_def contentSize_def
      currentThumbPos_def isHorizontal_def column_of_def zero_box_def)

text \<open>Apart from NaN, \<open>scrollTo\<close> stores the clamped input, a value of the unit
  interval.\<close>

lemma scrollTo_clamps:
  assumes "contentEls s \<noteq> []" and "r \<noteq> NaN"
  shows "returns (scrollTo h r s)
    \<and> ratio (state_of (scrollTo h r s)) = clamp r (Fin 0) (Fin 1)
    \<and> Fin 0 \<le> ratio (state_of (scrollTo h r s))
    \<and> ratio (state_of (scrollTo h r s)) \<le> Fin 1"
  using assms
  by (simp add: scrollTo_def clampAndApply_eq applyPosition_returns applyPosition_ratio
      clamp_unit)

section \<open>The ratio and the unit interval\<close>

text \<open>
  Claim C1 does not hold of the code. \<open>clampAndApply\<close> compares the ratio with 0 and
  with 1, and both comparisons are false of NaN, which is therefore stored and written.
  On a page whose content is exactly as wide as its viewport (100), the constructor
  returns \<open>fit_bar\<close> with ratio 0, and \<open>scrollToOffset 50\<close> computes \<open>(50 - 100/2) / (100 -
  100)\<close>: the ratio is NaN afterwards, neither \<open>0 \<le> ratio\<close> nor \<open>ratio \<le> 1\<close> holds, and
  NaN is what the thumb's and the content's offset, the accessibility value and the
  observer receive.
\<close>

theorem ratio_NaN_after_scrollToOffset:
  "DetachedScrollbar (page_of 200 200 100 100 0) {} example_options = Constructed fit_bar
   \<and> ratio fit_bar = Fin 0
   \<and> returns (scrollToOffset (page_of 200 200 100 100 0) (Fin 50) fit_bar)
   \<and> ratio (state_of (scrollToOffset (page_of 200 200 100 100 0) (Fin 50) fit_bar)) = NaN
   \<and> \<not> Fin 0 \<le> ratio (state_of (scrollToOffset (page_of 200 200 100 100 0) (Fin 50) fit_bar))
   \<and> \<not> ratio (state_of (scrollToOffset (page_of 200 200 100 100 0) (Fin 50) fit_bar)) \<le> Fin 1
   \<and> trace (state_of (scrollToOffset (page_of 200 200 100 100 0) (Fin 50) fit_bar)) =
       trace fit_bar @
       [SetStyle 20 CssLeft (Px NaN), SetStyle 40 CssLeft (Px NaN),
        SetAttribute 20 ''aria-valuenow'' (NumStr NaN), OnScroll NaN]"
proof -
  let ?h = "page_of 200 200 100 100 0"
  have f: "track fit_bar = 10" "thumb fit_bar = 20" "viewport fit_bar = 30"
    "contentEls fit_bar = [40]" "direction fit_bar = Horizontal"
    and g: "onScrollCb fit_bar" "isHorizontal fit_bar" "ratio fit_bar = Fin 0"
    by (simp_all add: fit_bar_def example_fields isHorizontal_def)
  note m = page_of_measure [OF f, of 200 200 100 100 0]
  have eq: "scrollToOffset ?h (Fin 50) fit_bar = applyPosition ?h (fit_bar\<lparr>ratio := NaN\<rparr>)"
    by (simp add: scrollToOffset_eq [OF m(4)] m clamp_NaN)
  have c: "contentSize ?h (fit_bar\<lparr>ratio := NaN\<rparr>) = Some (Fin 100)"
    using m(4) by simp
  show ?thesis
    unfolding eq applyPosition_eq [OF c]
    by (simp add: fit_constructed f g m less_eq_number_def)
qed

section \<open>Applying a position\<close>

text \<open>
  Claim C2. For every ratio \<open>r\<close> and every geometry snapshot (track extent \<open>tr\<close>, thumb
  extent \<open>th\<close>, viewport extent \<open>vp\<close>, content extent \<open>ct\<close>), \<open>applyPosition\<close> returns
  and appends to the page's effects, in this order: the thumb's offset style (\<^verbatim>\<open>left\<close>
  for a horizontal instance, \<^verbatim>\<open>top\<close> for a vertical one) set to \<open>r \<times> (tr - th)\<close>; the same
  offset style of every content element, in the order of the list, each set to the one
  value \<open>-r \<times> (ct - vp)\<close>; the thumb's \<^verbatim>\<open>aria-valuenow\<close> set to \<open>r \<times> 100\<close> rounded to the
  nearest integer, a tie upwards, that is \<open>\<lfloor>r \<times> 100 + 1/2\<rfloor>\<close>; the on-scroll observer,
  when one was supplied, called with \<open>r\<close>. The stored ratio is unchanged.
\<close>

theorem applyPosition_writes:
  fixes r :: real
  assumes "ratio s = Fin r"
    and "trackSize h s = tr" and "thumbSize h s = th"
    and "viewportSize h s = vp" and "contentSize h s = Some ct"
  shows "returns (applyPosition h s)
    \<and> ratio (state_of (applyPosition h s)) = Fin r
    \<and> trace (state_of (applyPosition h s)) =
        trace s
        @ [SetStyle (thumb s) (case direction s of Horizontal \<Rightarrow> CssLeft | Vertical \<Rightarrow> CssTop)
             (Px (Fin r * (tr - th)))]
        @ map (\<lambda>el. SetStyle el (case direction s of Horizontal \<Rightarrow> CssLeft | Vertical \<Rightarrow> CssTop)
             (Px (Fin (- r) * (ct - vp)))) (contentEls s)
        @ [SetAttribute (thumb s) ''aria-valuenow'' (NumStr (Fin (of_int \<lfloor>r * 100 + 1 / 2\<rfloor>)))]
        @ (if onScrollCb s then [OnScroll (Fin r)] else [])"
  using assms
  by (cases "direction s") (simp_all add: applyPosition_eq isHorizontal_def)

text \<open>The witness: a horizontal instance with the two content elements 40 and 41 at the
  ratio 1/8 (12.5 per cent, rounded up to 13; travel 100, overflow 400), and a vertical
  instance at the ratio 1/16 (6.25 per cent, rounded down to 6).\<close>

theorem applyPosition_writes_witness:
  "returns (applyPosition (page_of 200 100 400 800 0)
      (example_bar\<lparr>contentEls := [40, 41], ratio := Fin (1/8)\<rparr>))
   \<and> ratio (state_of (applyPosition (page_of 200 100 400 800 0)
        (example_bar\<lparr>contentEls := [40, 41], ratio := Fin (1/8)\<rparr>))) = Fin (1/8)
   \<and> trace (state_of (applyPosition (page_of 200 100 400 800 0)
        (example_bar\<lparr>contentEls := [40, 41], ratio := Fin (1/8)\<rparr>))) =
       trace example_bar @
       [SetStyle 20 CssLeft (Px (Fin (25/2))),
        SetStyle 40 CssLeft (Px (Fin (- 50))), SetStyle 41 CssLeft (Px (Fin (- 50))),
        SetAttribute 20 ''aria-valuenow'' (NumStr (Fin 13)), OnScroll (Fin (1/8))]
   \<and> trace (state_of (applyPosition (column_of 200 100 400 800 0)
        (example_bar\<lparr>direction := Vertical, ratio := Fin (1/16)\<rparr>))) =
       trace example_bar @
       [SetStyle 20 CssTop (Px (Fin (25/4))), SetStyle 40 CssTop (Px (Fin (- 25))),
        SetAttribute 20 ''aria-valuenow'' (NumStr (Fin 6)), OnScroll (Fin (1/16))]"
proof -
  let ?s = "example_bar\<lparr>contentEls := [40, 41], ratio := Fin (1/8)\<rparr>"
  let ?v = "example_bar\<lparr>direction := Vertical, ratio := Fin (1/16)\<rparr>"
  have f: "track ?s = 10" "thumb ?s = 20" "viewport ?s = 30" "contentEls ?s = 40 # [41]"
    "direction ?s = Horizontal"
    and g: "track ?v = 10" "thumb ?v = 20" "viewport ?v = 30" "contentEls ?v = 40 # []"
    "direction ?v = Vertical"
    and k: "ratio ?s = Fin (1/8)" "ratio ?v = Fin (1/16)" "onScrollCb ?s" "onScrollCb ?v"
    "trace ?s = trace example_bar" "trace ?v = trace example_bar"
    by (simp_all add: example_bar_def)
  have r1: "\<lfloor>(1 / 8 :: real) * 100 + 1 / 2\<rfloor> = 13" and r2: "\<lfloor>(1 / 16 :: real) * 100 + 1 / 2\<rfloor> = 6"
    by linarith+
  show ?thesis
    using applyPosition_writes [OF k(1) page_of_measure(1-4) [OF f, of 200 100 400 800 0]]
      applyPosition_writes [OF k(2) column_of_measure(1-4) [OF g, of 200 100 400 800 0]]
    by (simp add: f g k r1 r2)
qed

section \<open>scrollTo\<close>

text \<open>
  Claim C3 does not hold of the code for the input NaN. \<open>scrollTo\<close> stores its argument
  and calls \<open>clampAndApply\<close>, whose two comparisons are both false of NaN: \<open>scrollTo NaN\<close>
  returns without an error, but the ratio afterwards is NaN, not a value clamped to the
  interval from 0 to 1, and NaN is what the thumb, the content, the accessibility value
  and the observer receive. (For every other input, infinite ones included, the ratio is
  the clamped input: \<open>scrollTo_clamps\<close> above.)
\<close>

theorem scrollTo_NaN_stays:
  "returns (scrollTo (page_of 200 100 400 800 0) NaN example_bar)
   \<and> ratio (state_of (scrollTo (page_of 200 100 400 800 0) NaN example_bar)) = NaN
   \<and> \<not> Fin 0 \<le> ratio (state_of (scrollTo (page_of 200 100 400 800 0) NaN example_bar))
   \<and> \<not> ratio (state_of (scrollTo (page_of 200 100 400 800 0) NaN example_bar)) \<le> Fin 1
   \<and> trace (state_of (scrollTo (page_of 200 100 400 800 0) NaN example_bar)) =
       trace example_bar @
       [SetStyle 20 CssLeft (Px NaN), SetStyle 40 CssLeft (Px NaN),
        SetAttribute 20 ''aria-valuenow'' (NumStr NaN), OnScroll NaN]
   \<and> ratio (state_of (scrollTo (page_of 200 100 400 800 0) PosInfinity example_bar)) = Fin 1
   \<and> ratio (state_of (scrollTo (page_of 200 100 400 800 0) (Fin (- 3)) example_bar)) = Fin 0"
proof -
  let ?h = "page_of 200 100 400 800 0"
  have f: "track (example_bar\<lparr>ratio := NaN\<rparr>) = 10" "thumb (example_bar\<lparr>ratio := NaN\<rparr>) = 20"
    "viewport (example_bar\<lparr>ratio := NaN\<rparr>) = 30"
    "contentEls (example_bar\<lparr>ratio := NaN\<rparr>) = 40 # []"
    "direction (example_bar\<lparr>ratio := NaN\<rparr>) = Horizontal"
    by (simp_all add: example_fields)
  note m = page_of_measure [OF f, of 200 100 400 800 0]
  have eq: "scrollTo ?h NaN example_bar = applyPosition ?h (example_bar\<lparr>ratio := NaN\<rparr>)"
    by (simp add: scrollTo_def clampAndApply_eq clamp_NaN)
  have nan: "returns (scrollTo ?h NaN example_bar)
    \<and> ratio (state_of (scrollTo ?h NaN example_bar)) = NaN
    \<and> trace (state_of (scrollTo ?h NaN example_bar)) =
       trace example_bar @
       [SetStyle 20 CssLeft (Px NaN), SetStyle 40 CssLeft (Px NaN),
        SetAttribute 20 ''aria-valuenow'' (NumStr NaN), OnScroll NaN]"
    unfolding eq applyPosition_eq [OF m(4)]
    by (simp add: example_fields m)
  have others: "ratio (state_of (scrollTo ?h PosInfinity example_bar)) = Fin 1"
    "ratio (state_of (scrollTo ?h (Fin (- 3)) example_bar)) = Fin 0"
    by (simp_all add: scrollTo_def clampAndApply_eq applyPosition_ratio clamp_PosInfinity
        clamp_Fin)
  show ?thesis
    using nan others by (simp add: less_eq_number_def)
qed

section \<open>scrollToOffset\<close>

text \<open>
  Claim C4, as stated, fails: the division by \<open>contentExtent - viewportExtent\<close> is not
  guarded. With viewport and content both 100 wide, \<open>scrollToOffset 50\<close> divides zero by
  zero and stores NaN, and \<open>scrollToOffset 200\<close> takes the ratio from 0 to 1 and moves
  the thumb of a 200 wide track by 100: the motion is not a no-op.
\<close>

theorem scrollToOffset_guard_counterexample:
  "viewportSize (page_of 200 100 100 100 0) example_bar = Fin 100
   \<and> contentSize (page_of 200 100 100 100 0) example_bar = Some (Fin 100)
   \<and> returns (scrollToOffset (page_of 200 100 100 100 0) (Fin 50) example_bar)
   \<and> ratio (state_of (scrollToOffset (page_of 200 100 100 100 0) (Fin 50) example_bar)) = NaN
   \<and> ratio example_bar = Fin 0
   \<and> ratio (state_of (scrollToOffset (page_of 200 100 100 100 0) (Fin 200) example_bar)) = Fin 1
   \<and> trace (state_of (scrollToOffset (page_of 200 100 100 100 0) (Fin 200) example_bar)) =
       trace example_bar @
       [SetStyle 20 CssLeft (Px (Fin 100)), SetStyle 40 CssLeft (Px (Fin 0)),
        SetAttribute 20 ''aria-valuenow'' (NumStr (Fin 100)), OnScroll (Fin 1)]"
  by (simp add: scrollToOffset_eq [where ct = "Fin 100"] applyPosition_eq [where ct = "Fin 100"]
      viewportSize_def contentSize_def trackSize_def thumbSize_def isHorizontal_def
      page_of_def example_bar_def zero_box_def clamp_NaN clamp_PosInfinity)

text \<open>
  Claim C4, amended. For every pixel offset \<open>x\<close>, \<open>scrollToOffset x\<close> sets the ratio to
  \<open>clamp((x - viewportExtent/2) / (contentExtent - viewportExtent), 0, 1)\<close> and applies
  it. The division is not guarded: when \<open>contentExtent - viewportExtent\<close> is negative
  the quotient is taken and clamped all the same, so the ratio is a finite value of
  the unit interval; when it is zero the ratio becomes 1 for \<open>x\<close> above half the viewport
  extent and 0 for \<open>x\<close> below it. (Nothing is said of \<open>x\<close> equal to half the viewport
  extent when the difference is zero.)
\<close>

theorem scrollToOffset_unguarded:
  fixes a v c :: real
  assumes "viewportSize h s = Fin v" and "contentSize h s = Some (Fin c)"
  shows "scrollToOffset h x s =
           applyPosition h
             (s\<lparr>ratio := clamp ((x - Fin v / Fin 2) / (Fin c - Fin v)) (Fin 0) (Fin 1)\<rparr>)
    \<and> returns (scrollToOffset h x s)
    \<and> ratio (state_of (scrollToOffset h x s)) =
          clamp ((x - Fin v / Fin 2) / (Fin c - Fin v)) (Fin 0) (Fin 1)
    \<and> (x = Fin a \<longrightarrow> c < v \<longrightarrow>
          ratio (state_of (scrollToOffset h x s)) = Fin (min 1 (max 0 ((a - v / 2) / (c - v)))))
    \<and> (x = Fin a \<longrightarrow> c = v \<longrightarrow> v / 2 < a \<longrightarrow>
          ratio (state_of (scrollToOffset h x s)) = Fin 1)
    \<and> (x = Fin a \<longrightarrow> c = v \<longrightarrow> a < v / 2 \<longrightarrow>
          ratio (state_of (scrollToOffset h x s)) = Fin 0)"
proof -
  have ne: "contentEls s \<noteq> []"
    using assms(2) by (rule contentSize_nonempty)
  have eq: "scrollToOffset h x s =
      applyPosition h
        (s\<lparr>ratio := clamp ((x - Fin v / Fin 2) / (Fin c - Fin v)) (Fin 0) (Fin 1)\<rparr>)"
    using scrollToOffset_eq [OF assms(2), of x] assms(1) by simp
  have r: "ratio (state_of (scrollToOffset h x s)) =
      clamp ((x - Fin v / Fin 2) / (Fin c - Fin v)) (Fin 0) (Fin 1)"
    by (simp only: eq applyPosition_ratio) simp
  have ret: "returns (scrollToOffset h x s)"
    using ne by (simp only: eq applyPosition_returns) simp
  have c1: "x = Fin a \<longrightarrow> c < v \<longrightarrow>
      ratio (state_of (scrollToOffset h x s)) = Fin (min 1 (max 0 ((a - v / 2) / (c - v))))"
    unfolding r by (simp add: clamp_Fin)
  have c2: "x = Fin a \<longrightarrow> c = v \<longrightarrow> v / 2 < a \<longrightarrow>
      ratio (state_of (scrollToOffset h x s)) = Fin 1"
    unfolding r by (simp add: clamp_PosInfinity)
  have c3: "x = Fin a \<longrightarrow> c = v \<longrightarrow> a < v / 2 \<longrightarrow>
      ratio (state_of (scrollToOffset h x s)) = Fin 0"
    unfolding r by (simp add: clamp_NegInfinity)
  show ?thesis
    using eq ret r c1 c2 c3 by blast
qed

text \<open>The witness takes the three cases in turn: content 50 in a viewport of 100 with
  \<open>x = 0\<close> (the quotient is \<open>-50 / -50 = 1\<close>), then content and viewport both 100 with
  \<open>x = 200\<close> and with \<open>x = 0\<close>.\<close>

theorem scrollToOffset_unguarded_witness:
  "ratio (state_of (scrollToOffset (page_of 200 200 100 50 0) (Fin 0) example_bar)) = Fin 1
   \<and> ratio (state_of (scrollToOffset (page_of 200 200 100 100 0) (Fin 200) example_bar)) = Fin 1
   \<and> ratio (state_of (scrollToOffset (page_of 200 200 100 100 0) (Fin 0) example_bar)) = Fin 0
   \<and> returns (scrollToOffset (page_of 200 200 100 50 0) (Fin 0) example_bar)"
  using scrollToOffset_unguarded [of "page_of 200 200 100 50 0" example_bar 100 50 "Fin 0" 0]
    scrollToOffset_unguarded [of "page_of 200 200 100 100 0" example_bar 100 100 "Fin 200" 200]
    scrollToOffset_unguarded [of "page_of 200 200 100 100 0" example_bar 100 100 "Fin 0" 0]
    page_of_sizes [of _ _ _ _ _ "trace example_bar"]
  by (simp add: applyPosition_ratio applyPosition_returns clamp_Fin clamp_PosInfinity
      clamp_NegInfinity example_bar_def)

section \<open>Dragging the thumb\<close>

text \<open>
  Claim C5, as stated, fails twice. On a track of 200 with a thumb of 100 at offset 50
  (travel 100, ratio 1/2), a move of the pointer from 0 to 10 gives the ratio 3/5: the
  thumb follows the pointer, where the claim's \<open>r0 + (p0 - p1) / travel\<close> is 2/5. And
  the division by the travel is not guarded: with a thumb as wide as the track, the same
  move takes the ratio from 0 to 1, and a move that leaves the pointer where it was
  stores NaN.
\<close>

theorem handleMove_counterexample:
  "trackSize (page_of 200 100 400 800 50) example_bar
     - thumbSize (page_of 200 100 400 800 50) example_bar = Fin 100
   \<and> currentThumbPos (page_of 200 100 400 800 50) example_bar = Fin (1/2) * Fin 100
   \<and> ratio (state_of (handleMove (page_of 200 100 400 800 50) (MouseEvent (Fin 10) (Fin 0))
        (example_bar\<lparr>ratio := Fin (1/2), lastPointer := Fin 0, isDragging := True\<rparr>))) = Fin (3/5)
   \<and> clamp (Fin (1/2) + (Fin 0 - Fin 10) / Fin 100) (Fin 0) (Fin 1) = Fin (2/5)
   \<and> trackSize (page_of 200 200 400 800 0) example_bar
     - thumbSize (page_of 200 200 400 800 0) example_bar = Fin 0
   \<and> ratio (state_of (handleMove (page_of 200 200 400 800 0) (MouseEvent (Fin 10) (Fin 0))
        (example_bar\<lparr>ratio := Fin 0, lastPointer := Fin 0, isDragging := True\<rparr>))) = Fin 1
   \<and> ratio (state_of (handleMove (page_of 200 200 400 800 0) (MouseEvent (Fin 0) (Fin 0))
        (example_bar\<lparr>ratio := Fin 0, lastPointer := Fin 0, isDragging := True\<rparr>))) = NaN"
  by (simp add: handleMove_eq [where pos = "Fin 10"] handleMove_eq [where pos = "Fin 0"]
      applyPosition_ratio isHorizontal_def trackSize_def thumbSize_def currentThumbPos_def
      emit_def page_of_def example_bar_def zero_box_def clamp_Fin clamp_NaN clamp_PosInfinity)

text \<open>
  Claim C5, amended. A pointer move from \<open>p0\<close> (the last pointer coordinate) to \<open>p1\<close>
  sets the ratio to \<open>clamp((d - (p0 - p1)) / travel, 0, 1)\<close>, where \<open>d\<close> is the thumb's
  offset and \<open>travel = trackExtent - thumbExtent\<close> as measured during the move; so with
  \<open>travel > 0\<close> and the thumb's offset consistent with the current ratio \<open>r0\<close>
  (\<open>d = r0 \<times> travel\<close>) the move yields \<open>clamp(r0 - (p0 - p1) / travel, 0, 1)\<close>. The
  division is not guarded: with \<open>travel = 0\<close> the ratio becomes 1 when the new thumb
  position \<open>d - (p0 - p1)\<close> is positive and 0 when it is negative. (Nothing is said of a
  new thumb position of zero with \<open>travel = 0\<close>.)
\<close>

theorem handleMove_follows_pointer:
  fixes p0 p1 d t r0 :: real
  assumes "lastPointer s = Fin p0" and "pointerPos s e = Some (Fin p1)"
    and "currentThumbPos h (emit PreventDefault s) = Fin d"
    and "trackSize h (emit PreventDefault s) - thumbSize h (emit PreventDefault s) = Fin t"
    and "contentEls s \<noteq> []"
  shows "returns (handleMove h e s)
    \<and> lastPointer (state_of (handleMove h e s)) = Fin p1
    \<and> ratio (state_of (handleMove h e s)) = clamp (Fin (d - (p0 - p1)) / Fin t) (Fin 0) (Fin 1)
    \<and> (0 < t \<longrightarrow> ratio s = Fin r0 \<longrightarrow> d = r0 * t \<longrightarrow>
          ratio (state_of (handleMove h e s)) =
            clamp (ratio s - (Fin p0 - Fin p1) / Fin t) (Fin 0) (Fin 1))
    \<and> (t = 0 \<longrightarrow> 0 < d - (p0 - p1) \<longrightarrow> ratio (state_of (handleMove h e s)) = Fin 1)
    \<and> (t = 0 \<longrightarrow> d - (p0 - p1) < 0 \<longrightarrow> ratio (state_of (handleMove h e s)) = Fin 0)"
proof -
  have eq: "handleMove h e s =
      applyPosition h
        ((emit PreventDefault s)\<lparr>lastPointer := Fin p1,
           ratio := clamp (Fin (d - (p0 - p1)) / Fin t) (Fin 0) (Fin 1)\<rparr>)"
    using handleMove_eq [OF assms(2), of h] assms(1,3,4) by simp
  have ret: "returns (handleMove h e s)"
    using assms(5) by (simp only: eq applyPosition_returns) simp
  have lp: "lastPointer (state_of (handleMove h e s)) = Fin p1"
    by (simp only: eq applyPosition_frame) simp
  have r: "ratio (state_of (handleMove h e s)) =
      clamp (Fin (d - (p0 - p1)) / Fin t) (Fin 0) (Fin 1)"
    by (simp only: eq applyPosition_ratio) simp
  have c1: "0 < t \<longrightarrow> ratio s = Fin r0 \<longrightarrow> d = r0 * t \<longrightarrow>
      ratio (state_of (handleMove h e s)) =
        clamp (ratio s - (Fin p0 - Fin p1) / Fin t) (Fin 0) (Fin 1)"
    unfolding r by (simp add: field_simps)
  have c2: "t = 0 \<longrightarrow> 0 < d - (p0 - p1) \<longrightarrow> ratio (state_of (handleMove h e s)) = Fin 1"
    unfolding r by (simp add: clamp_PosInfinity)
  have c3: "t = 0 \<longrightarrow> d - (p0 - p1) < 0 \<longrightarrow> ratio (state_of (handleMove h e s)) = Fin 0"
    unfolding r by (simp add: clamp_NegInfinity)
  show ?thesis
    using ret lp r c1 c2 c3 by blast
qed

text \<open>The witness: the move from 0 to 10 on the track of 200 with a thumb of 100 at
  offset 50 and ratio 1/2, then the same move and the opposite one with a thumb of 200.\<close>

theorem handleMove_follows_pointer_witness:
  "returns (handleMove (page_of 200 100 400 800 50) (MouseEvent (Fin 10) (Fin 0))
      (example_bar\<lparr>ratio := Fin (1/2)\<rparr>))
   \<and> ratio (state_of (handleMove (page_of 200 100 400 800 50) (MouseEvent (Fin 10) (Fin 0))
        (example_bar\<lparr>ratio := Fin (1/2)\<rparr>))) = Fin (3/5)
   \<and> ratio (state_of (handleMove (page_of 200 200 400 800 0) (MouseEvent (Fin 10) (Fin 0))
        example_bar)) = Fin 1
   \<and> ratio (state_of (handleMove (page_of 200 200 400 800 0) (MouseEvent (Fin (- 10)) (Fin 0))
        example_bar)) = Fin 0"
proof -
  let ?s = "example_bar\<lparr>ratio := Fin (1/2)\<rparr>"
  have s1: "lastPointer ?s = Fin 0" and s2: "contentEls ?s \<noteq> []"
    and s3: "ratio ?s = Fin (1/2)"
    and s4: "pointerPos ?s (MouseEvent (Fin 10) (Fin 0)) = Some (Fin 10)"
    by (simp_all add: example_bar_def isHorizontal_def)
  have b1: "lastPointer example_bar = Fin 0" and b2: "contentEls example_bar \<noteq> []"
    and b3: "pointerPos example_bar (MouseEvent (Fin 10) (Fin 0)) = Some (Fin 10)"
    and b4: "pointerPos example_bar (MouseEvent (Fin (- 10)) (Fin 0)) = Some (Fin (- 10))"
    by (simp_all add: example_bar_def isHorizontal_def)
  have g1: "currentThumbPos (page_of 200 100 400 800 50) (emit PreventDefault ?s) = Fin 50"
    and g2: "trackSize (page_of 200 100 400 800 50) (emit PreventDefault ?s)
          - thumbSize (page_of 200 100 400 800 50) (emit PreventDefault ?s) = Fin 100"
    and g3: "currentThumbPos (page_of 200 200 400 800 0) (emit PreventDefault example_bar) = Fin 0"
    and g4: "trackSize (page_of 200 200 400 800 0) (emit PreventDefault example_bar)
          - thumbSize (page_of 200 200 400 800 0) (emit PreventDefault example_bar) = Fin 0"
    by (simp_all add: isHorizontal_def trackSize_def thumbSize_def currentThumbPos_def
        emit_def page_of_def example_bar_def zero_box_def)
  show ?thesis
    using handleMove_follows_pointer [OF s1 s4 g1 g2 s2, of "1/2"]
      handleMove_follows_pointer [OF b1 b3 g3 g4 b2]
      handleMove_follows_pointer [OF b1 b4 g3 g4 b2]
    by (simp add: clamp_Fin clamp_PosInfinity clamp_NegInfinity)
qed

section \<open>Sizing the thumb\<close>

text \<open>
  Claim C6, as stated, fails where viewport and content both measure zero (elements that
  are not displayed): \<open>0 / 0\<close> is NaN, \<^verbatim>\<open>Math.min(NaN, 1)\<close> is NaN, and the extent written
  for a track of 100 is NaN, not 100.
\<close>

theorem sizeThumb_counterexample:
  "trackSize (page_of 100 0 0 0 0) example_bar = Fin 100
   \<and> viewportSize (page_of 100 0 0 0 0) example_bar = Fin 0
   \<and> contentSize (page_of 100 0 0 0 0) example_bar = Some (Fin 0)
   \<and> trace (state_of (sizeThumb (page_of 100 0 0 0 0) example_bar)) =
       trace example_bar @ [SetStyle 20 CssWidth (Px NaN)]"
  by (simp add: sizeThumb_eq [where ct = "Fin 0"] isHorizontal_def trackSize_def
      viewportSize_def contentSize_def emit_def page_of_def example_bar_def zero_box_def
      Math_min_def)

text \<open>
  Claim C6, amended. Every invocation of \<open>sizeThumb\<close> sets the thumb's extent along the
  active axis (\<^verbatim>\<open>width\<close> or \<^verbatim>\<open>height\<close>) to
  \<open>trackExtent \<times> min(viewportExtent / contentExtent, 1)\<close> and recomputes the step size
  as \<open>trackExtent / keyboardSteps\<close>, with the track measured again after the write.
  Whenever \<open>viewportExtent \<ge> contentExtent \<ge> 0\<close> and \<open>viewportExtent > 0\<close>, the extent
  written equals the track extent.
\<close>

theorem sizeThumb_extent:
  fixes t v c :: real
  assumes "trackSize h s = Fin t" and "viewportSize h s = Fin v"
    and "contentSize h s = Some (Fin c)"
  shows "returns (sizeThumb h s)
    \<and> trace (state_of (sizeThumb h s)) =
        trace s @ [SetStyle (thumb s) (if isHorizontal s then CssWidth else CssHeight)
                     (Px (Fin t * Math_min (Fin v / Fin c) (Fin 1)))]
    \<and> dragStep (state_of (sizeThumb h s)) =
        trackSize h (state_of (sizeThumb h s)) / keyboardSteps s
    \<and> (0 \<le> c \<longrightarrow> c \<le> v \<longrightarrow> 0 < v \<longrightarrow>
        trace (state_of (sizeThumb h s)) =
          trace s @ [SetStyle (thumb s) (if isHorizontal s then CssWidth else CssHeight)
                       (Px (Fin t))])"
proof -
  have eq: "sizeThumb h s =
    Returned ((emit (SetStyle (thumb s) (if isHorizontal s then CssWidth else CssHeight)
                 (Px (Fin t * Math_min (Fin v / Fin c) (Fin 1)))) s)
       \<lparr>dragStep :=
          trackSize h (emit (SetStyle (thumb s) (if isHorizontal s then CssWidth else CssHeight)
                 (Px (Fin t * Math_min (Fin v / Fin c) (Fin 1)))) s)
          / keyboardSteps s\<rparr>)"
    using sizeThumb_eq [OF assms(3)] assms(1,2) by simp
  have ret: "returns (sizeThumb h s)"
    by (simp add: eq)
  have tr: "trace (state_of (sizeThumb h s)) =
        trace s @ [SetStyle (thumb s) (if isHorizontal s then CssWidth else CssHeight)
                     (Px (Fin t * Math_min (Fin v / Fin c) (Fin 1)))]"
    by (simp add: eq emit_def)
  have st: "dragStep (state_of (sizeThumb h s)) =
        trackSize h (state_of (sizeThumb h s)) / keyboardSteps s"
    by (simp add: eq)
  have full: "0 \<le> c \<Longrightarrow> c \<le> v \<Longrightarrow> 0 < v \<Longrightarrow>
      Fin t * Math_min (Fin v / Fin c) (Fin 1) = Fin t"
  proof -
    assume c: "0 \<le> c" "c \<le> v" "0 < v"
    show ?thesis
    proof (cases "c = 0")
      case True
      then show ?thesis using c by (simp add: Math_min_def)
    next
      case False
      then have "0 < c" using c by simp
      then have "1 \<le> v / c" using c by simp
      then show ?thesis using False by (auto simp: Math_min_def)
    qed
  qed
  have c1: "0 \<le> c \<longrightarrow> c \<le> v \<longrightarrow> 0 < v \<longrightarrow>
        trace (state_of (sizeThumb h s)) =
          trace s @ [SetStyle (thumb s) (if isHorizontal s then CssWidth else CssHeight)
                       (Px (Fin t))]"
    using tr full by simp
  show ?thesis
    using ret tr st c1 by blast
qed

text \<open>The witness: a viewport of 400 over a content of 300, on a track of 200 divided
  in 50 keyboard steps.\<close>

theorem sizeThumb_extent_witness:
  "returns (sizeThumb (page_of 200 100 400 300 0) example_bar)
   \<and> trace (state_of (sizeThumb (page_of 200 100 400 300 0) example_bar)) =
       trace example_bar @ [SetStyle 20 CssWidth (Px (Fin 200))]
   \<and> dragStep (state_of (sizeThumb (page_of 200 100 400 300 0) example_bar)) = Fin 4"
proof -
  have g: "trackSize (page_of 200 100 400 300 0) example_bar = Fin 200"
    "viewportSize (page_of 200 100 400 300 0) example_bar = Fin 400"
    "contentSize (page_of 200 100 400 300 0) example_bar = Some (Fin 300)"
    using page_of_sizes [of 200 100 400 300 0 "trace example_bar"] by simp_all
  have k: "thumb example_bar = 20" "isHorizontal example_bar"
    "keyboardSteps example_bar = Fin 50"
    by (simp_all add: example_bar_def isHorizontal_def)
  have t: "trackSize (page_of 200 100 400 300 0)
      (state_of (sizeThumb (page_of 200 100 400 300 0) example_bar)) = Fin 200"
    unfolding sizeThumb_eq [OF g(3)]
    by (simp add: trackSize_def isHorizontal_def page_of_def example_bar_def zero_box_def
        emit_def)
  show ?thesis
    using sizeThumb_extent [OF g] k t by (simp add: Math_min_def)
qed

section \<open>Keyboard\<close>

text \<open>
  Claim C7. On a key-down at the thumb, with \<open>travel = trackExtent - thumbExtent\<close> and the
  stored step size: the back key, which is \<^verbatim>\<open>ArrowLeft\<close> on a horizontal instance and
  \<^verbatim>\<open>ArrowUp\<close> on a vertical one, subtracts \<open>stepSize / travel\<close> from the ratio, and the
  forward key, \<^verbatim>\<open>ArrowRight\<close> or \<^verbatim>\<open>ArrowDown\<close>, adds it; \<^verbatim>\<open>Home\<close> sets the ratio to exactly 0
  and \<^verbatim>\<open>End\<close> to exactly 1 whatever it was. Each of the four prevents the default handling
  and is followed by one clamp and one application of the position, and returns. Every
  other key, the arrow keys of the other axis among them, leaves the instance and the
  page as they are.
\<close>

theorem handleKey_steps:
  assumes "contentEls s \<noteq> []"
    and "trackSize h s - thumbSize h s = travel"
  shows "(direction s = Horizontal \<and> key = ''ArrowLeft''
          \<or> direction s = Vertical \<and> key = ''ArrowUp'' \<longrightarrow>
            handleKey h key s =
              applyPosition h ((emit PreventDefault s)
                \<lparr>ratio := clamp (ratio s - dragStep s / travel) (Fin 0) (Fin 1)\<rparr>)
            \<and> returns (handleKey h key s)
            \<and> ratio (state_of (handleKey h key s)) =
                clamp (ratio s - dragStep s / travel) (Fin 0) (Fin 1))
    \<and> (direction s = Horizontal \<and> key = ''ArrowRight''
          \<or> direction s = Vertical \<and> key = ''ArrowDown'' \<longrightarrow>
            handleKey h key s =
              applyPosition h ((emit PreventDefault s)
                \<lparr>ratio := clamp (ratio s + dragStep s / travel) (Fin 0) (Fin 1)\<rparr>)
            \<and> returns (handleKey h key s)
            \<and> ratio (state_of (handleKey h key s)) =
                clamp (ratio s + dragStep s / travel) (Fin 0) (Fin 1))
    \<and> (key = ''Home'' \<longrightarrow>
            handleKey h key s = applyPosition h ((emit PreventDefault s)\<lparr>ratio := Fin 0\<rparr>)
            \<and> returns (handleKey h key s)
            \<and> ratio (state_of (handleKey h key s)) = Fin 0)
    \<and> (key = ''End'' \<longrightarrow>
            handleKey h key s = applyPosition h ((emit PreventDefault s)\<lparr>ratio := Fin 1\<rparr>)
            \<and> returns (handleKey h key s)
            \<and> ratio (state_of (handleKey h key s)) = Fin 1)
    \<and> (direction s = Horizontal \<longrightarrow>
          key \<notin> {''ArrowLeft'', ''ArrowRight'', ''Home'', ''End''} \<longrightarrow>
            handleKey h key s = Returned s)
    \<and> (direction s = Vertical \<longrightarrow>
          key \<notin> {''ArrowUp'', ''ArrowDown'', ''Home'', ''End''} \<longrightarrow>
            handleKey h key s = Returned s)"
proof -
  have ne: "contentEls ((emit PreventDefault s)\<lparr>ratio := x\<rparr>) \<noteq> []" for x
    using assms(1) by simp
  have bk: "direction s = Horizontal \<and> key = ''ArrowLeft''
      \<or> direction s = Vertical \<and> key = ''ArrowUp'' \<Longrightarrow> handleKey h key s =
      applyPosition h ((emit PreventDefault s)
        \<lparr>ratio := clamp (ratio s - dragStep s / travel) (Fin 0) (Fin 1)\<rparr>)"
    using assms(2)
    by (elim disjE conjE)
      (simp_all add: handleKey_def Let_def clampAndApply_eq backKey_def fwdKey_def
        isHorizontal_def)
  have fw: "direction s = Horizontal \<and> key = ''ArrowRight''
      \<or> direction s = Vertical \<and> key = ''ArrowDown'' \<Longrightarrow> handleKey h key s =
      applyPosition h ((emit PreventDefault s)
        \<lparr>ratio := clamp (ratio s + dragStep s / travel) (Fin 0) (Fin 1)\<rparr>)"
    using assms(2)
    by (elim disjE conjE)
      (simp_all add: handleKey_def Let_def clampAndApply_eq backKey_def fwdKey_def
        isHorizontal_def)
  have home: "key = ''Home'' \<Longrightarrow> handleKey h key s =
      applyPosition h ((emit PreventDefault s)\<lparr>ratio := Fin 0\<rparr>)"
    by (simp add: handleKey_def Let_def clampAndApply_eq clamp_Fin backKey_def fwdKey_def)
  have end_key: "key = ''End'' \<Longrightarrow> handleKey h key s =
      applyPosition h ((emit PreventDefault s)\<lparr>ratio := Fin 1\<rparr>)"
    by (simp add: handleKey_def Let_def clampAndApply_eq clamp_Fin backKey_def fwdKey_def)
  have other_h: "direction s = Horizontal \<Longrightarrow>
      key \<notin> {''ArrowLeft'', ''ArrowRight'', ''Home'', ''End''} \<Longrightarrow>
      handleKey h key s = Returned s"
    by (simp add: handleKey_def Let_def backKey_def fwdKey_def isHorizontal_def)
  have other_v: "direction s = Vertical \<Longrightarrow>
      key \<notin> {''ArrowUp'', ''ArrowDown'', ''Home'', ''End''} \<Longrightarrow>
      handleKey h key s = Returned s"
    by (simp add: handleKey_def Let_def backKey_def fwdKey_def isHorizontal_def)
  have c1: "direction s = Horizontal \<and> key = ''ArrowLeft''
      \<or> direction s = Vertical \<and> key = ''ArrowUp'' \<longrightarrow>
        handleKey h key s =
          applyPosition h ((emit PreventDefault s)
            \<lparr>ratio := clamp (ratio s - dragStep s / travel) (Fin 0) (Fin 1)\<rparr>)
        \<and> returns (handleKey h key s)
        \<and> ratio (state_of (handleKey h key s)) =
            clamp (ratio s - dragStep s / travel) (Fin 0) (Fin 1)"
    using bk ne by (simp add: applyPosition_returns applyPosition_ratio)
  have c2: "direction s = Horizontal \<and> key = ''ArrowRight''
      \<or> direction s = Vertical \<and> key = ''ArrowDown'' \<longrightarrow>
        handleKey h key s =
          applyPosition h ((emit PreventDefault s)
            \<lparr>ratio := clamp (ratio s + dragStep s / travel) (Fin 0) (Fin 1)\<rparr>)
        \<and> returns (handleKey h key s)
        \<and> ratio (state_of (handleKey h key s)) =
            clamp (ratio s + dragStep s / travel) (Fin 0) (Fin 1)"
    using fw ne by (simp add: applyPosition_returns applyPosition_ratio)
  have c3: "key = ''Home'' \<longrightarrow>
        handleKey h key s = applyPosition h ((emit PreventDefault s)\<lparr>ratio := Fin 0\<rparr>)
        \<and> returns (handleKey h key s)
        \<and> ratio (state_of (handleKey h key s)) = Fin 0"
    using home ne by (simp add: applyPosition_returns applyPosition_ratio)
  have c4: "key = ''End'' \<longrightarrow>
        handleKey h key s = applyPosition h ((emit PreventDefault s)\<lparr>ratio := Fin 1\<rparr>)
        \<and> returns (handleKey h key s)
        \<and> ratio (state_of (handleKey h key s)) = Fin 1"
    using end_key ne by (simp add: applyPosition_returns applyPosition_ratio)
  have c5: "direction s = Horizontal \<longrightarrow>
      key \<notin> {''ArrowLeft'', ''ArrowRight'', ''Home'', ''End''} \<longrightarrow>
      handleKey h key s = Returned s"
    using other_h by (intro impI)
  have c6: "direction s = Vertical \<longrightarrow>
      key \<notin> {''ArrowUp'', ''ArrowDown'', ''Home'', ''End''} \<longrightarrow>
      handleKey h key s = Returned s"
    using other_v by (intro impI)
  show ?thesis
    by (rule conjI [OF c1 conjI [OF c2 conjI [OF c3 conjI [OF c4 conjI [OF c5 c6]]]]])
qed

text \<open>The witness. On a horizontal track of 200 with a thumb of 100 and 50 keyboard
  steps (a step of 4 pixels, 1/25 of the travel), \<^verbatim>\<open>ArrowRight\<close> takes the ratio from 1/2
  to 27/50 and \<^verbatim>\<open>ArrowLeft\<close> to 23/50, \<^verbatim>\<open>Home\<close> and \<^verbatim>\<open>End\<close> give 0 and 1, and \<^verbatim>\<open>ArrowUp\<close>
  does nothing. On a vertical track of the same measures, \<^verbatim>\<open>ArrowDown\<close> gives 27/50 and
  \<^verbatim>\<open>ArrowUp\<close> 23/50, and \<^verbatim>\<open>ArrowLeft\<close> and \<^verbatim>\<open>ArrowRight\<close> do nothing.\<close>

theorem handleKey_steps_witness:
  "ratio (state_of (handleKey (page_of 200 100 400 800 50) ''ArrowRight''
      (example_bar\<lparr>ratio := Fin (1/2)\<rparr>))) = Fin (27/50)
   \<and> ratio (state_of (handleKey (page_of 200 100 400 800 50) ''ArrowLeft''
      (example_bar\<lparr>ratio := Fin (1/2)\<rparr>))) = Fin (23/50)
   \<and> ratio (state_of (handleKey (page_of 200 100 400 800 50) ''Home''
      (example_bar\<lparr>ratio := Fin (1/2)\<rparr>))) = Fin 0
   \<and> ratio (state_of (handleKey (page_of 200 100 400 800 50) ''End''
      (example_bar\<lparr>ratio := Fin (1/2)\<rparr>))) = Fin 1
   \<and> returns (handleKey (page_of 200 100 400 800 50) ''ArrowRight''
      (example_bar\<lparr>ratio := Fin (1/2)\<rparr>))
   \<and> handleKey (page_of 200 100 400 800 50) ''ArrowUp'' (example_bar\<lparr>ratio := Fin (1/2)\<rparr>)
       = Returned (example_bar\<lparr>ratio := Fin (1/2)\<rparr>)
   \<and> ratio (state_of (handleKey (column_of 200 100 400 800 50) ''ArrowDown''
      (example_bar\<lparr>direction := Vertical, ratio := Fin (1/2)\<rparr>))) = Fin (27/50)
   \<and> ratio (state_of (handleKey (column_of 200 100 400 800 50) ''ArrowUp''
      (example_bar\<lparr>direction := Vertical, ratio := Fin (1/2)\<rparr>))) = Fin (23/50)
   \<and> handleKey (column_of 200 100 400 800 50) ''ArrowLeft''
        (example_bar\<lparr>direction := Vertical, ratio := Fin (1/2)\<rparr>)
       = Returned (example_bar\<lparr>direction := Vertical, ratio := Fin (1/2)\<rparr>)
   \<and> handleKey (column_of 200 100 400 800 50) ''ArrowRight''
        (example_bar\<lparr>direction := Vertical, ratio := Fin (1/2)\<rparr>)
       = Returned (example_bar\<lparr>direction := Vertical, ratio := Fin (1/2)\<rparr>)"
proof -
  let ?s = "example_bar\<lparr>ratio := Fin (1/2)\<rparr>"
  let ?h = "page_of 200 100 400 800 50"
  let ?v = "example_bar\<lparr>direction := Vertical, ratio := Fin (1/2)\<rparr>"
  let ?c = "column_of 200 100 400 800 50"
  have f: "track ?s = 10" "thumb ?s = 20" "viewport ?s = 30" "contentEls ?s = 40 # []"
    "direction ?s = Horizontal"
    and g: "track ?v = 10" "thumb ?v = 20" "viewport ?v = 30" "contentEls ?v = 40 # []"
    "direction ?v = Vertical"
    by (simp_all add: example_bar_def)
  have a: "contentEls ?s \<noteq> []" and a': "contentEls ?v \<noteq> []"
    by (simp_all add: example_bar_def)
  have b: "trackSize ?h ?s - thumbSize ?h ?s = Fin 100"
    using page_of_measure(1,2) [OF f, of 200 100 400 800 50] by simp
  have b': "trackSize ?c ?v - thumbSize ?c ?v = Fin 100"
    using column_of_measure(1,2) [OF g, of 200 100 400 800 50] by simp
  have k: "ratio ?s = Fin (1/2)" "dragStep ?s = Fin 4" "ratio ?v = Fin (1/2)"
    "dragStep ?v = Fin 4"
    by (simp_all add: example_bar_def)
  have h1: "ratio (state_of (handleKey ?h ''ArrowRight'' ?s)) = Fin (27/50)"
    "returns (handleKey ?h ''ArrowRight'' ?s)"
    using handleKey_steps [OF a b, of "''ArrowRight''"] f(5) by (simp_all add: k clamp_Fin applyPosition_ratio applyPosition_returns example_fields)
  have h2: "ratio (state_of (handleKey ?h ''ArrowLeft'' ?s)) = Fin (23/50)"
    using handleKey_steps [OF a b, of "''ArrowLeft''"] f(5) by (simp add: k clamp_Fin applyPosition_ratio applyPosition_returns example_fields)
  have h3: "ratio (state_of (handleKey ?h ''Home'' ?s)) = Fin 0"
    using handleKey_steps [OF a b, of "''Home''"] by (simp add: applyPosition_ratio applyPosition_returns example_fields)
  have h4: "ratio (state_of (handleKey ?h ''End'' ?s)) = Fin 1"
    using handleKey_steps [OF a b, of "''End''"] by (simp add: applyPosition_ratio applyPosition_returns example_fields)
  have h5: "handleKey ?h ''ArrowUp'' ?s = Returned ?s"
    using handleKey_steps [OF a b, of "''ArrowUp''"] f(5) by (simp add: applyPosition_ratio applyPosition_returns example_fields)
  have v1: "ratio (state_of (handleKey ?c ''ArrowDown'' ?v)) = Fin (27/50)"
    using handleKey_steps [OF a' b', of "''ArrowDown''"] g(5) by (simp add: k clamp_Fin applyPosition_ratio applyPosition_returns example_fields)
  have v2: "ratio (state_of (handleKey ?c ''ArrowUp'' ?v)) = Fin (23/50)"
    using handleKey_steps [OF a' b', of "''ArrowUp''"] g(5) by (simp add: k clamp_Fin applyPosition_ratio applyPosition_returns example_fields)
  have v3: "handleKey ?c ''ArrowLeft'' ?v = Returned ?v"
    using handleKey_steps [OF a' b', of "''ArrowLeft''"] g(5) by (simp add: applyPosition_ratio applyPosition_returns example_fields)
  have v4: "handleKey ?c ''ArrowRight'' ?v = Returned ?v"
    using handleKey_steps [OF a' b', of "''ArrowRight''"] g(5) by (simp add: applyPosition_ratio applyPosition_returns example_fields)
  show ?thesis
    by (intro conjI) (fact h1 h2 h3 h4 h5 v1 v2 v3 v4)+
qed

section \<open>destroy\<close>

text \<open>
  Claim C8, as stated, fails in its second half: no public method looks at the
  \<open>destroyed\<close> flag. After \<open>destroy\<close>, \<open>scrollTo 1\<close> on the example instance still
  measures the page and writes the thumb's and the content's position, the
  accessibility value and calls the observer.
\<close>

theorem destroy_counterexample:
  "destroyed (destroy example_bar)
   \<and> returns (scrollTo (page_of 200 100 400 800 0) (Fin 1) (destroy example_bar))
   \<and> trace (state_of (scrollTo (page_of 200 100 400 800 0) (Fin 1) (destroy example_bar))) =
       trace (destroy example_bar) @
       [SetStyle 20 CssLeft (Px (Fin 100)), SetStyle 40 CssLeft (Px (Fin (- 400))),
        SetAttribute 20 ''aria-valuenow'' (NumStr (Fin 100)), OnScroll (Fin 1)]"
proof -
  let ?h = "page_of 200 100 400 800 0"
  let ?d = "(destroy example_bar)\<lparr>ratio := Fin 1\<rparr>"
  have f: "track ?d = 10" "thumb ?d = 20" "viewport ?d = 30" "contentEls ?d = [40]"
    "direction ?d = Horizontal" "onScrollCb ?d" "isHorizontal ?d"
    by (simp_all add: destroy_frame example_fields isHorizontal_def)
  have g: "track (destroy example_bar) = 10" "thumb (destroy example_bar) = 20"
    "viewport (destroy example_bar) = 30" "contentEls (destroy example_bar) = [40]"
    "direction (destroy example_bar) = Horizontal" "isHorizontal (destroy example_bar)"
    by (simp_all add: destroy_frame example_fields isHorizontal_def)
  have eq: "scrollTo ?h (Fin 1) (destroy example_bar) = applyPosition ?h ?d"
    by (simp add: scrollTo_def clampAndApply_eq clamp_Fin)
  show ?thesis
    unfolding eq applyPosition_eq [OF page_of_measure(4) [OF f(1-5)]]
    by (simp add: destroy_destroyed page_of_measure [OF g(1-5)] g destroy_frame
        example_fields)
qed

text \<open>
  Claim C8, amended. \<open>destroy\<close> is idempotent: a repeated call returns the instance as
  it is, with no effect on the page (no second removal of a listener). The first call
  removes every listener that \<open>init\<close> and \<open>handleDown\<close> register and clears the pending
  resize timer, so that afterwards no event and no timer callback reaches the instance.
  The public methods are not guarded: \<open>scrollTo\<close> after \<open>destroy\<close> clamps and applies the
  position as before, measuring the page and writing the thumb's offset first.
\<close>

theorem destroy_idempotent:
  "destroy (destroy s) = destroy s
   \<and> (\<not> destroyed s \<longrightarrow> listeners s \<subseteq> registrations s \<longrightarrow>
        listeners (destroy s) = {}
        \<and> dispatchEvent h t ty e (destroy s) = Returned (destroy s))
   \<and> (\<not> destroyed s \<longrightarrow> timers s \<subseteq> set_option (resizeTimer s) \<longrightarrow>
        timers (destroy s) = {}
        \<and> fireTimer h i (destroy s) = Returned (destroy s))
   \<and> scrollTo h r (destroy s) =
        applyPosition h ((destroy s)\<lparr>ratio := clamp r (Fin 0) (Fin 1)\<rparr>)
   \<and> (contentEls s \<noteq> [] \<longrightarrow>
        returns (scrollTo h r (destroy s))
        \<and> take (Suc (length (trace (destroy s))))
             (trace (state_of (scrollTo h r (destroy s)))) =
           trace (destroy s) @
           [SetStyle (thumb s) (if isHorizontal s then CssLeft else CssTop)
              (Px (clamp r (Fin 0) (Fin 1)
                   * (trackSize h (destroy s) - thumbSize h (destroy s))))])"
proof -
  have idem: "destroy (destroy s) = destroy s"
    by (rule destroy_again) (rule destroy_destroyed)
  have ls: "\<not> destroyed s \<Longrightarrow> listeners s \<subseteq> registrations s \<Longrightarrow> listeners (destroy s) = {}"
    by (simp add: destroy_listeners)
  have ts: "\<not> destroyed s \<Longrightarrow> timers s \<subseteq> set_option (resizeTimer s) \<Longrightarrow> timers (destroy s) = {}"
    by (simp add: destroy_timers)
  have eq: "scrollTo h r (destroy s) =
      applyPosition h ((destroy s)\<lparr>ratio := clamp r (Fin 0) (Fin 1)\<rparr>)"
    by (simp add: scrollTo_def clampAndApply_eq)
  have wr: "contentEls s \<noteq> [] \<Longrightarrow>
      returns (scrollTo h r (destroy s))
      \<and> take (Suc (length (trace (destroy s))))
           (trace (state_of (scrollTo h r (destroy s)))) =
         trace (destroy s) @
         [SetStyle (thumb s) (if isHorizontal s then CssLeft else CssTop)
            (Px (clamp r (Fin 0) (Fin 1)
                 * (trackSize h (destroy s) - thumbSize h (destroy s))))]"
  proof -
    assume ne: "contentEls s \<noteq> []"
    then have "contentEls ((destroy s)\<lparr>ratio := clamp r (Fin 0) (Fin 1)\<rparr>) \<noteq> []"
      by (simp add: destroy_frame)
    then obtain ct where
      ct: "contentSize h ((destroy s)\<lparr>ratio := clamp r (Fin 0) (Fin 1)\<rparr>) = Some ct"
      using contentSize_Some by blast
    show ?thesis
      unfolding eq applyPosition_eq [OF ct]
      by (simp add: destroy_frame isHorizontal_def)
  qed
  show ?thesis
    using idem ls ts eq wr dispatchEvent_unregistered fireTimer_idle by simp
qed

text \<open>The witness: the example instance, whose listeners are the five that \<open>init\<close>
  registered and which has no timer pending.\<close>

theorem destroy_idempotent_witness:
  "destroy (destroy example_bar) = destroy example_bar
   \<and> listeners (destroy example_bar) = {}
   \<and> dispatchEvent (page_of 200 100 400 800 0) (Element 20) ''keydown'' (Keyboard ''End'')
        (destroy example_bar) = Returned (destroy example_bar)
   \<and> timers (destroy example_bar) = {}
   \<and> fireTimer (page_of 200 100 400 800 0) 0 (destroy example_bar)
        = Returned (destroy example_bar)
   \<and> returns (scrollTo (page_of 200 100 400 800 0) (Fin 1) (destroy example_bar))"
proof -
  have a: "\<not> destroyed example_bar" "listeners example_bar \<subseteq> registrations example_bar"
    "timers example_bar \<subseteq> set_option (resizeTimer example_bar)"
    "contentEls example_bar \<noteq> []"
    by (simp_all add: example_bar_def registrations_def)
  show ?thesis
    using destroy_idempotent [of example_bar "page_of 200 100 400 800 0" "Element 20"
        "''keydown''" "Keyboard ''End''" 0 "Fin 1"] a
    by (simp add: applyPosition_returns destroy_frame)
qed

section \<open>isDragging\<close>

text \<open>
  Claim C9 does not hold of the code. A press on the thumb sets \<open>isDragging\<close>, and a
  release that reaches \<open>handleUp\<close> resets it. But \<open>destroy\<close>, called between the two,
  removes the document's release listeners without resetting the flag (as \<open>handleUp\<close>
  does when it removes them): the release is then delivered to nobody, and \<open>isDragging\<close>
  stays true in every state after \<open>destroy\<close>.
\<close>

theorem isDragging_stuck_after_destroy:
  "\<not> isDragging example_bar
   \<and> isDragging pressed_bar
   \<and> \<not> isDragging (state_of (dispatchEvent (page_of 200 100 400 800 0) Document ''mouseup''
          Plain pressed_bar))
   \<and> destroyed destroyed_mid_drag
   \<and> isDragging destroyed_mid_drag
   \<and> dispatchEvent (page_of 200 100 400 800 0) Document ''mouseup'' Plain destroyed_mid_drag
       = Returned destroyed_mid_drag
   \<and> dispatchEvent (page_of 200 100 400 800 0) Document ''touchend'' Plain destroyed_mid_drag
       = Returned destroyed_mid_drag"
proof -
  have p: "isDragging pressed_bar" "\<not> destroyed pressed_bar"
    "(Document, ''mouseup'', OnUp) \<in> listeners pressed_bar"
    "listeners pressed_bar \<subseteq> registrations pressed_bar"
    by (simp_all add: pressed_bar_eq example_bar_def registrations_def)
  have up: "\<not> isDragging (state_of (dispatchEvent (page_of 200 100 400 800 0) Document
      ''mouseup'' Plain pressed_bar))"
    using p(3) by (simp add: dispatchEvent_def handlerOf_def handleUp_def Let_def)
  have d: "listeners destroyed_mid_drag = {}"
    using p(2,4) by (simp add: destroyed_mid_drag_def destroy_listeners)
  show ?thesis
    using p(1) up d
    by (simp add: dispatchEvent_unregistered destroyed_mid_drag_def destroy_destroyed
        destroy_frame example_fields example_bar_def)
qed

section \<open>The content extent\<close>

text \<open>
  Claim C10. The content extent is the scroll size of the first content element and of
  no other. For an instance with content elements \<open>el # els\<close>, two pages that report the
  same boxes for the track, the thumb and the viewport and the same scroll size for
  \<open>el\<close> give the same thumb sizing and step size and the same positions, whatever they
  report for \<open>els\<close>. With an empty list of content elements, every operation that
  measures the content throws a TypeError, and so does the construction itself, in
  \<open>init\<close>'s call of \<open>sizeThumb\<close>.
\<close>

theorem contentSize_first_only:
  "(contentEls s = el # els \<longrightarrow>
      (\<forall>es. layout h es (track s) = layout h' es (track s)) \<longrightarrow>
      (\<forall>es. layout h es (thumb s) = layout h' es (thumb s)) \<longrightarrow>
      (\<forall>es. layout h es (viewport s) = layout h' es (viewport s)) \<longrightarrow>
      (\<forall>es. scrollWidth (layout h es el) = scrollWidth (layout h' es el)) \<longrightarrow>
      (\<forall>es. scrollHeight (layout h es el) = scrollHeight (layout h' es el)) \<longrightarrow>
        contentSize h s =
          Some (if isHorizontal s then scrollWidth (layout h (trace s) el)
                else scrollHeight (layout h (trace s) el))
        \<and> sizeThumb h s = sizeThumb h' s
        \<and> applyPosition h s = applyPosition h' s
        \<and> update h s = update h' s
        \<and> scrollTo h r s = scrollTo h' r s
        \<and> scrollToOffset h x s = scrollToOffset h' x s)
   \<and> (contentEls s = [] \<longrightarrow>
        sizeThumb h s = Threw TypeError s
        \<and> applyPosition h s = Threw TypeError s
        \<and> update h s = Threw TypeError s
        \<and> resizeCallback h s = Threw TypeError s
        \<and> scrollToOffset h x s = Threw TypeError s
        \<and> \<not> returns (scrollTo h r s)
        \<and> \<not> returns (clampAndApply h s)
        \<and> (\<exists>s'. init h s = Threw TypeError s'))
   \<and> (resolveElement h (opt_track opts) = Inr n1 \<longrightarrow>
      resolveElement h (opt_thumb opts) = Inr n2 \<longrightarrow>
      resolveElement h (opt_viewport opts) = Inr n3 \<longrightarrow>
      opt_content opts = Many [] \<longrightarrow>
        (\<exists>s'. DetachedScrollbar h attrs opts = InitFailed TypeError s'))"
proof -
  have part1: "sizeThumb h s = sizeThumb h' s \<and> applyPosition h s = applyPosition h' s
      \<and> update h s = update h' s \<and> scrollTo h r s = scrollTo h' r s
      \<and> scrollToOffset h x s = scrollToOffset h' x s"
    if c: "contentEls s = el # els"
      and a1: "\<forall>es. layout h es (track s) = layout h' es (track s)"
      and a2: "\<forall>es. layout h es (thumb s) = layout h' es (thumb s)"
      and a3: "\<forall>es. layout h es (viewport s) = layout h' es (viewport s)"
      and a4: "\<forall>es. scrollWidth (layout h es el) = scrollWidth (layout h' es el)"
      and a5: "\<forall>es. scrollHeight (layout h es el) = scrollHeight (layout h' es el)"
  proof -
    note m = same_measures [OF a1 a2 a3 c a4 a5]
    have ap: "applyPosition h s' = applyPosition h' s'"
      if "track s' = track s" "thumb s' = thumb s" "viewport s' = viewport s"
        "contentEls s' = contentEls s" for s'
      using m [OF that] by (simp add: applyPosition_def split: option.splits)
    have sz: "sizeThumb h s = sizeThumb h' s"
      using m [of s] m(1) [of "emit e s" for e]
      by (simp add: sizeThumb_def Let_def split: option.splits)
    obtain ct where ct: "contentSize h' s = Some ct"
      using c contentSize_Some [of s h'] by auto
    have up: "update h s = update h' s"
      unfolding update_def sz sizeThumb_eq [OF ct] by (simp add: ap)
    have st: "scrollTo h r s = scrollTo h' r s"
      by (simp add: scrollTo_def clampAndApply_eq ap)
    have so: "scrollToOffset h x s = scrollToOffset h' x s"
      using m [of s]
      by (simp add: scrollToOffset_def Let_def clampAndApply_eq ap split: option.splits)
    show ?thesis
      using sz ap [of s] up st so by simp
  qed
  have first: "contentSize h s =
      Some (if isHorizontal s then scrollWidth (layout h (trace s) el)
            else scrollHeight (layout h (trace s) el))"
    if "contentEls s = el # els"
    using that by (simp add: contentSize_def)
  have part2: "sizeThumb h s = Threw TypeError s \<and> applyPosition h s = Threw TypeError s
      \<and> update h s = Threw TypeError s \<and> resizeCallback h s = Threw TypeError s
      \<and> scrollToOffset h x s = Threw TypeError s \<and> \<not> returns (scrollTo h r s)
      \<and> \<not> returns (clampAndApply h s) \<and> (\<exists>s'. init h s = Threw TypeError s')"
    if e: "contentEls s = []"
    using e init_empty [OF e, of h]
    by (simp add: sizeThumb_empty applyPosition_empty update_def resizeCallback_def
        scrollToOffset_def contentSize_None scrollTo_def clampAndApply_eq
        applyPosition_returns)
  have part3: "\<exists>s'. DetachedScrollbar h attrs opts = InitFailed TypeError s'"
    if r: "resolveElement h (opt_track opts) = Inr n1"
      "resolveElement h (opt_thumb opts) = Inr n2"
      "resolveElement h (opt_viewport opts) = Inr n3"
      "opt_content opts = Many []"
  proof -
    let ?s0 = "\<lparr>track = n1, thumb = n2, contentEls = [], viewport = n3,
              direction = (case opt_direction opts of None \<Rightarrow> Horizontal | Some d \<Rightarrow> d),
              keyboardSteps = (case opt_keyboardSteps opts of None \<Rightarrow> Fin 50 | Some k \<Rightarrow> k),
              trackClick = (case opt_trackClick opts of None \<Rightarrow> True | Some b \<Rightarrow> b),
              autoResize = (case opt_autoResize opts of None \<Rightarrow> True | Some b \<Rightarrow> b),
              resizeDebounce = (case opt_resizeDebounce opts of None \<Rightarrow> Fin 100 | Some d \<Rightarrow> d),
              onScrollCb = opt_onScroll opts,
              onDragStartCb = opt_onDragStart opts,
              onDragEndCb = opt_onDragEnd opts,
              ratio = Fin 0, dragStep = Fin 0, lastPointer = Fin 0, isDragging = False,
              resizeTimer = None, destroyed = False,
              attributes = attrs, listeners = {}, timers = {}, nextTimer = 0, trace = []\<rparr>"
    obtain s' where "init h ?s0 = Threw TypeError s'"
      using init_empty [of ?s0 h] by auto
    then show ?thesis
      using r by (simp add: DetachedScrollbar_def)
  qed
  show ?thesis
    using part1 first part2 part3 by blast
qed

text \<open>The witness: an instance with the content elements 40 and 41, on two pages that
  differ in the scroll width of 41 only; an instance with no content element; and the
  constructor called with an empty array of content elements.\<close>

theorem contentSize_first_only_witness:
  "scrollWidth (layout (page_of 200 100 400 800 0) [] 41) = Fin 800
   \<and> scrollWidth (layout (second_row 5000 (page_of 200 100 400 800 0)) [] 41) = Fin 5000
   \<and> update (page_of 200 100 400 800 0) (example_bar\<lparr>contentEls := [40, 41]\<rparr>) =
       update (second_row 5000 (page_of 200 100 400 800 0))
         (example_bar\<lparr>contentEls := [40, 41]\<rparr>)
   \<and> update (page_of 200 100 400 800 0) (example_bar\<lparr>contentEls := []\<rparr>) =
       Threw TypeError (example_bar\<lparr>contentEls := []\<rparr>)
   \<and> (\<exists>s'. DetachedScrollbar (page_of 200 100 400 800 0) {}
          (example_options\<lparr>opt_content := Many []\<rparr>) = InitFailed TypeError s')"
proof -
  let ?h = "page_of 200 100 400 800 0"
  let ?s = "example_bar\<lparr>contentEls := [40, 41]\<rparr>"
  have a: "contentEls ?s = 40 # [41]"
    "\<forall>es. layout ?h es (track ?s) = layout (second_row 5000 ?h) es (track ?s)"
    "\<forall>es. layout ?h es (thumb ?s) = layout (second_row 5000 ?h) es (thumb ?s)"
    "\<forall>es. layout ?h es (viewport ?s) = layout (second_row 5000 ?h) es (viewport ?s)"
    "\<forall>es. scrollWidth (layout ?h es 40) = scrollWidth (layout (second_row 5000 ?h) es 40)"
    "\<forall>es. scrollHeight (layout ?h es 40) = scrollHeight (layout (second_row 5000 ?h) es 40)"
    by (simp_all add: second_row_def example_bar_def)
  have b: "contentEls (example_bar\<lparr>contentEls := []\<rparr>) = []"
    by simp
  have c: "resolveElement ?h (opt_track (example_options\<lparr>opt_content := Many []\<rparr>)) = Inr 10"
    "resolveElement ?h (opt_thumb (example_options\<lparr>opt_content := Many []\<rparr>)) = Inr 20"
    "resolveElement ?h (opt_viewport (example_options\<lparr>opt_content := Many []\<rparr>)) = Inr 30"
    "opt_content (example_options\<lparr>opt_content := Many []\<rparr>) = Many []"
    by (simp_all add: example_options_def page_of_def)
  have d: "scrollWidth (layout ?h [] 41) = Fin 800"
    "scrollWidth (layout (second_row 5000 ?h) [] 41) = Fin 5000"
    by (simp_all add: second_row_def page_of_def zero_box_def)
  have u: "update ?h ?s = update (second_row 5000 ?h) ?s"
    using contentSize_first_only [where s = ?s and el = 40 and els = "[41]" and h = ?h
        and h' = "second_row 5000 ?h" and r = "Fin 0" and x = "Fin 0"
        and opts = example_options and ?n1.0 = 10 and ?n2.0 = 20 and ?n3.0 = 30
        and attrs = "{}"] a
    by blast
  have e: "update ?h (example_bar\<lparr>contentEls := []\<rparr>) =
      Threw TypeError (example_bar\<lparr>contentEls := []\<rparr>)"
    using contentSize_first_only [where s = "example_bar\<lparr>contentEls := []\<rparr>" and el = 40
        and els = "[]" and h = ?h and h' = ?h and r = "Fin 0" and x = "Fin 0"
        and opts = example_options and ?n1.0 = 10 and ?n2.0 = 20 and ?n3.0 = 30
        and attrs = "{}"] b
    by blast
  have k: "\<exists>s'. DetachedScrollbar ?h {} (example_options\<lparr>opt_content := Many []\<rparr>)
      = InitFailed TypeError s'"
    using contentSize_first_only [where s = example_bar and el = 40
        and els = "[]" and h = ?h and h' = ?h and r = "Fin 0" and x = "Fin 0"
        and opts = "example_options\<lparr>opt_content := Many []\<rparr>"
        and ?n1.0 = 10 and ?n2.0 = 20 and ?n3.0 = 30 and attrs = "{}"] c
    by blast
  show ?thesis
    using u e k d by blast
qed

end
